theory Spec2Isabelle
  imports Main "HOL-Library.Word"
begin

section \<open>Platform values: bytes, hexadecimal text, decimal text\<close>

type_synonym byte = "8 word"

text \<open>A \<open>Buffer\<close> is a list of bytes.\<close>

type_synonym Buffer = "byte list"

definition hex_digit :: "nat \<Rightarrow> char" where
  "hex_digit n = ''0123456789abcdef'' ! n"

text \<open>\<open>buf.toString('hex')\<close>: two lower-case digits per byte.\<close>

definition Buffer_toString_hex :: "Buffer \<Rightarrow> string" where
  "Buffer_toString_hex buf =
     concat (map (\<lambda>b. [hex_digit (unat b div 16), hex_digit (unat b mod 16)]) buf)"

definition unhex :: "char \<Rightarrow> nat option" where
  "unhex c =
     (let n = of_char c :: nat in
      if 48 \<le> n \<and> n \<le> 57 then Some (n - 48)
      else if 97 \<le> n \<and> n \<le> 102 then Some (n - 87)
      else if 65 \<le> n \<and> n \<le> 70 then Some (n - 55)
      else None)"

text \<open>\<open>Buffer.from(s, 'hex')\<close>: decodes pairs of digits and stops at the first pair
  that is not hexadecimal; a trailing single digit is dropped.\<close>

fun Buffer_from_hex :: "string \<Rightarrow> Buffer" where
  "Buffer_from_hex (a # b # rest) =
     (case (unhex a, unhex b) of
        (Some h, Some l) \<Rightarrow> of_nat (16 * h + l) # Buffer_from_hex rest
      | _ \<Rightarrow> [])"
| "Buffer_from_hex _ = []"



text \<open>Decimal text of an integer, as a template literal and \<open>toString()\<close> print it.\<close>

definition digit_char :: "nat \<Rightarrow> char" where
  "digit_char d = ''0123456789'' ! d"

fun nat_toString :: "nat \<Rightarrow> string" where
  "nat_toString n = (if 10 \<le> n then nat_toString (n div 10) else []) @ [digit_char (n mod 10)]"

declare nat_toString.simps [simp del]

definition Number_toString :: "int \<Rightarrow> string" where
  "Number_toString i = (if 0 \<le> i then nat_toString (nat i) else CHR ''-'' # nat_toString (nat (- i)))"

definition nl :: string where
  "nl = [CHR 0x0A]"

section \<open>Signing session managers\<close>

subsection \<open>Observable effects\<close>

text \<open>
  Every call the session managers make on the operator's terminal and on the relay client is
  recorded, in program order.
\<close>

datatype action =
    Prompt string
  | LogInfo string
  | Connect
  | JoinSession string
  | StartSigningSession int string
  | WaitForJoinedSession
  | SubmitSigningIdentity string
  | SubmitSigningCommitment string
  | SubmitSignatureShare string
  | OnSigningStatus
  | GetSigningStatus
  | ClearSigningStatus
  | ActionStart string
  | ActionStatus string
  | ActionStop
  | Sleep nat

datatype error = Error string

text \<open>The message of a signing status event of the relay client.\<close>

record signing_status =
  status_numSigners :: int
  status_unsignedTransaction :: string
  identities :: "string list"
  signingCommitments :: "string list"
  signatureShares :: "string list"

text \<open>
  Status events are delivered to the subscribed callback while the manager sleeps. The relay's
  behaviour is given as the list, for each successive sleep, of the events that arrive during
  it, in order. After the last listed sleep the relay stays silent.
\<close>

type_synonym relay_events = "signing_status list list"

text \<open>What the operator types at the configuration prompts (\<open>None\<close>: never answers).\<close>

record operator =
  typedUnsignedTransaction :: "string option"
  typedNumSigners :: "int option"

record session_options =
  opt_numSigners :: "int option"
  opt_unsignedTransaction :: "string option"

text \<open>A computation that returns a trace and either an error or a value, or never returns.\<close>

type_synonym 'a outcome = "(action list \<times> (error + 'a)) option"

subsection \<open>inputSigningConfig\<close>

definition prompt_or :: "'a option \<Rightarrow> string \<Rightarrow> 'a option \<Rightarrow> (action list \<times> 'a) option" where
  "prompt_or given label typed =
     (case given of
        Some v \<Rightarrow> Some ([], v)
      | None \<Rightarrow> (case typed of None \<Rightarrow> None | Some v \<Rightarrow> Some ([Prompt label], v)))"

definition inputSigningConfig :: "operator \<Rightarrow> session_options \<Rightarrow> (int \<times> string) outcome" where
  "inputSigningConfig op options =
     (case prompt_or (opt_unsignedTransaction options) ''Enter the unsigned transaction''
             (typedUnsignedTransaction op) of
        None \<Rightarrow> None
      | Some (tr1, unsignedTransaction) \<Rightarrow>
          (case prompt_or (opt_numSigners options)
                  ''Enter the number of participants in signing this transaction''
                  (typedNumSigners op) of
             None \<Rightarrow> None
           | Some (tr2, numSigners) \<Rightarrow>
               if numSigners < 2
               then Some (tr1 @ tr2, Inl (Error ''Minimum number of participants must be at least 2''))
               else Some (tr1 @ tr2, Inr (numSigners, unsignedTransaction))))"

subsection \<open>Relayed transport: MultisigClientSigningSessionManager\<close>

text \<open>
  The polling loop of a round. \<open>cur\<close> is the local variable holding the contributions; the
  subscribed callback overwrites it with the list selected from each arriving event. The loop
  tests the variable, requests a status, updates the progress text and sleeps; the events of
  the next window arrive during that sleep. A round whose loop never exits does not return.
\<close>

fun poll_loop ::
  "(signing_status \<Rightarrow> string list) \<Rightarrow> int \<Rightarrow> string list \<Rightarrow> relay_events
     \<Rightarrow> (action list \<times> string list) option" where
  "poll_loop sel numSigners cur [] =
     (if int (length cur) < numSigners then None else Some ([], cur))"
| "poll_loop sel numSigners cur (w # ws) =
     (if int (length cur) < numSigners
      then map_option
             (\<lambda>(tr, r). (GetSigningStatus
                           # ActionStatus (nat_toString (length cur) @ ''/'' @ Number_toString numSigners)
                           # Sleep 3000 # tr, r))
             (poll_loop sel numSigners (fold (\<lambda>message _. sel message) w cur) ws)
      else Some ([], cur))"

definition collect_relayed ::
  "action \<Rightarrow> string \<Rightarrow> (signing_status \<Rightarrow> string list) \<Rightarrow> string \<Rightarrow> int \<Rightarrow> relay_events
     \<Rightarrow> (action list \<times> string list) option" where
  "collect_relayed submit label sel contribution numSigners events =
     map_option
       (\<lambda>(tr, r). ([submit, OnSigningStatus, ActionStart label] @ tr @ [ClearSigningStatus, ActionStop], r))
       (poll_loop sel numSigners [contribution] events)"

definition MultisigClient_getIdentities :: "string \<Rightarrow> int \<Rightarrow> relay_events \<Rightarrow> (action list \<times> string list) option" where
  "MultisigClient_getIdentities identity numSigners events =
     collect_relayed (SubmitSigningIdentity identity) ''Waiting for Identities from server''
       identities identity numSigners events"

definition MultisigClient_getSigningCommitments :: "string \<Rightarrow> int \<Rightarrow> relay_events \<Rightarrow> (action list \<times> string list) option" where
  "MultisigClient_getSigningCommitments signingCommitment numSigners events =
     collect_relayed (SubmitSigningCommitment signingCommitment) ''Waiting for Signing Commitments from server''
       signingCommitments signingCommitment numSigners events"

definition MultisigClient_getSignatureShares :: "string \<Rightarrow> int \<Rightarrow> relay_events \<Rightarrow> (action list \<times> string list) option" where
  "MultisigClient_getSignatureShares signatureShare numSigners events =
     collect_relayed (SubmitSignatureShare signatureShare) ''Waiting for Signature Shares from server''
       signatureShares signatureShare numSigners events"


text \<open>The value of the loop variable when each successive sleep ends.\<close>

fun observed :: "(signing_status \<Rightarrow> string list) \<Rightarrow> string list \<Rightarrow> relay_events \<Rightarrow> string list list" where
  "observed sel cur [] = []"
| "observed sel cur (w # ws) =
     fold (\<lambda>message _. sel message) w cur # observed sel (fold (\<lambda>message _. sel message) w cur) ws"

subsubsection \<open>Session start and rejoin\<close>

record client_manager =
  sessionId :: "string option"

text \<open>The relay client's answers: the id it gives a new session, its connection string, and
  the status events it delivers.\<close>

record relay =
  client_sessionId :: string
  connectionString :: string
  statusEvents :: relay_events

record 'tx signing_config =
  cfg_numSigners :: int
  cfg_unsignedTransaction :: 'tx

text \<open>JavaScript truthiness of \<open>this.sessionId\<close>: set and not the empty string.\<close>

definition truthy :: "string option \<Rightarrow> bool" where
  "truthy v = (case v of None \<Rightarrow> False | Some s \<Rightarrow> s \<noteq> [])"

text \<open>The local variables of \<open>getSessionConfig\<close> and its status callback.\<close>

record config_vars =
  var_numSigners :: int
  var_unsignedTransactionHex :: string
  var_waiting :: bool

definition on_config_status :: "signing_status \<Rightarrow> config_vars \<Rightarrow> config_vars" where
  "on_config_status message v =
     \<lparr>var_numSigners = status_numSigners message,
      var_unsignedTransactionHex = status_unsignedTransaction message,
      var_waiting = False\<rparr>"

fun config_loop :: "config_vars \<Rightarrow> relay_events \<Rightarrow> (action list \<times> config_vars) option" where
  "config_loop v [] = (if var_waiting v then None else Some ([], v))"
| "config_loop v (w # ws) =
     (if var_waiting v
      then map_option (\<lambda>(tr, r). (GetSigningStatus # Sleep 3000 # tr, r))
             (config_loop (fold on_config_status w v) ws)
      else Some ([], v))"

text \<open>\<open>new_UnsignedTransaction\<close> stands for the constructor of the SDK's
  \<open>UnsignedTransaction\<close> class, which may reject the bytes.\<close>

definition getSessionConfig ::
  "(Buffer \<Rightarrow> error + 'tx) \<Rightarrow> relay_events \<Rightarrow> 'tx signing_config outcome" where
  "getSessionConfig new_UnsignedTransaction events =
     (case config_loop \<lparr>var_numSigners = 0, var_unsignedTransactionHex = [], var_waiting = True\<rparr> events of
        None \<Rightarrow> None
      | Some (tr, v) \<Rightarrow>
          Some ([OnSigningStatus, ActionStart ''Waiting for signer config from server'']
                  @ tr @ [ClearSigningStatus, ActionStop],
                case new_UnsignedTransaction (Buffer_from_hex (var_unsignedTransactionHex v)) of
                  Inl e \<Rightarrow> Inl e
                | Inr unsignedTransaction \<Rightarrow>
                    Inr \<lparr>cfg_numSigners = var_numSigners v,
                         cfg_unsignedTransaction = unsignedTransaction\<rparr>))"

text \<open>Modelled from the spec: \<open>joinSession\<close> of the base class
  \<open>MultisigClientSessionManager\<close>, whose code is not part of the files modelled here. The
  spec says that the manager joins the existing session on the relay; the call is recorded and
  the session id is kept.\<close>

definition joinSession :: "string \<Rightarrow> action list" where
  "joinSession sid = [JoinSession sid]"

definition MultisigClient_startSession ::
  "(Buffer \<Rightarrow> error + 'tx) \<Rightarrow> relay \<Rightarrow> operator \<Rightarrow> client_manager \<Rightarrow> session_options
     \<Rightarrow> (client_manager \<times> action list \<times> (error + 'tx signing_config)) option" where
  "MultisigClient_startSession new_UnsignedTransaction rl op this options =
     (if truthy (sessionId this)
      then map_option (\<lambda>(tr, r). (this, joinSession (the (sessionId this)) @ tr, r))
             (getSessionConfig new_UnsignedTransaction (statusEvents rl))
      else
        (case inputSigningConfig op options of
           None \<Rightarrow> None
         | Some (tr, Inl e) \<Rightarrow> Some (this, tr, Inl e)
         | Some (tr, Inr (numSigners, unsignedTransaction)) \<Rightarrow>
             Some (this\<lparr>sessionId := Some (client_sessionId rl)\<rparr>,
                   tr @ [Connect,
                         StartSigningSession numSigners unsignedTransaction,
                         LogInfo (nl @ ''Starting new signing session: '' @ client_sessionId rl @ nl),
                         WaitForJoinedSession,
                         LogInfo (nl @ ''Signing session connection string:''),
                         LogInfo (connectionString rl)],
                   case new_UnsignedTransaction (Buffer_from_hex unsignedTransaction) of
                     Inl e \<Rightarrow> Inl e
                   | Inr t \<Rightarrow> Inr \<lparr>cfg_numSigners = numSigners, cfg_unsignedTransaction = t\<rparr>)))"

subsection \<open>Interactive transport: MultisigSigningSessionManager\<close>

definition Multisig_startSession ::
  "(Buffer \<Rightarrow> error + 'tx) \<Rightarrow> operator \<Rightarrow> session_options \<Rightarrow> 'tx signing_config outcome" where
  "Multisig_startSession new_UnsignedTransaction op options =
     (case inputSigningConfig op options of
        None \<Rightarrow> None
      | Some (tr, Inl e) \<Rightarrow> Some (tr, Inl e)
      | Some (tr, Inr (numSigners, unsignedTransaction)) \<Rightarrow>
          Some (tr, case new_UnsignedTransaction (Buffer_from_hex unsignedTransaction) of
                      Inl e \<Rightarrow> Inl e
                    | Inr t \<Rightarrow> Inr \<lparr>cfg_numSigners = numSigners, cfg_unsignedTransaction = t\<rparr>))"

text \<open>Modelled from the spec: \<open>ui.collectStrings\<close>, whose code is not part of the files
  modelled here. The spec says that the interactive strategy prompts for exactly \<open>N - 1\<close>
  peer-supplied strings, one at a time, accepts each as it is, performs no deduplication, and
  that the local contribution occupies position 0. \<open>typed\<close> is what the operator types, in
  order; with too few answers the prompt blocks for ever.\<close>

definition collectStrings ::
  "string \<Rightarrow> int \<Rightarrow> string list \<Rightarrow> string list \<Rightarrow> (action list \<times> string list) option" where
  "collectStrings itemName itemAmount additionalStrings typed =
     (if int (length typed) < itemAmount then None
      else Some (replicate (nat itemAmount) (Prompt itemName),
                 additionalStrings @ take (nat itemAmount) typed))"

definition Multisig_getIdentities ::
  "string \<Rightarrow> string \<Rightarrow> int \<Rightarrow> string list \<Rightarrow> (action list \<times> string list) option" where
  "Multisig_getIdentities accountName identity numSigners typed =
     map_option
       (\<lambda>(tr, r).
          ([LogInfo (''Identity for '' @ accountName @ '': '' @ nl @ identity @ '' '' @ nl),
            LogInfo ''Share your participant identity with other signers.'',
            LogInfo (''Enter '' @ Number_toString (numSigners - 1)
                       @ '' identities of the participants (excluding your own)'')] @ tr, r))
       (collectStrings ''Participant Identity'' (numSigners - 1) [identity] typed)"

definition frame :: "string \<Rightarrow> string \<Rightarrow> action list" where
  "frame title v =
     [LogInfo (nl @ ''============================================''),
      LogInfo (nl @ title),
      LogInfo v,
      LogInfo (nl @ ''============================================'')]"

definition Multisig_getSigningCommitments ::
  "string \<Rightarrow> int \<Rightarrow> string list \<Rightarrow> (action list \<times> string list) option" where
  "Multisig_getSigningCommitments signingCommitment numSigners typed =
     map_option
       (\<lambda>(tr, r).
          (frame ''Commitment:'' signingCommitment
             @ [LogInfo (nl @ ''Share your commitment with other participants.''),
                LogInfo (''Enter '' @ Number_toString (numSigners - 1)
                           @ '' commitments of the participants (excluding your own)'')] @ tr, r))
       (collectStrings ''Commitment'' (numSigners - 1) [signingCommitment] typed)"

definition Multisig_getSignatureShares ::
  "string \<Rightarrow> int \<Rightarrow> string list \<Rightarrow> (action list \<times> string list) option" where
  "Multisig_getSignatureShares signatureShare numSigners typed =
     map_option
       (\<lambda>(tr, r).
          (frame ''Signature Share:'' signatureShare
             @ [LogInfo (nl @ ''Share your signature share with other participants.''),
                LogInfo (''Enter '' @ Number_toString (numSigners - 1)
                           @ '' signature shares of the participants (excluding your own)'')] @ tr, r))
       (collectStrings ''Signature Share'' (numSigners - 1) [signatureShare] typed)"

subsection \<open>The three rounds\<close>

datatype round = Identities | Commitments | Shares

definition round_selector :: "round \<Rightarrow> signing_status \<Rightarrow> string list" where
  "round_selector rd = (case rd of Identities \<Rightarrow> identities
                                 | Commitments \<Rightarrow> signingCommitments
                                 | Shares \<Rightarrow> signatureShares)"

definition relayed_collector ::
  "round \<Rightarrow> string \<Rightarrow> int \<Rightarrow> relay_events \<Rightarrow> (action list \<times> string list) option" where
  "relayed_collector rd = (case rd of Identities \<Rightarrow> MultisigClient_getIdentities
                                    | Commitments \<Rightarrow> MultisigClient_getSigningCommitments
                                    | Shares \<Rightarrow> MultisigClient_getSignatureShares)"

definition interactive_collector ::
  "round \<Rightarrow> string \<Rightarrow> string \<Rightarrow> int \<Rightarrow> string list \<Rightarrow> (action list \<times> string list) option" where
  "interactive_collector rd accountName =
     (case rd of Identities \<Rightarrow> Multisig_getIdentities accountName
               | Commitments \<Rightarrow> Multisig_getSigningCommitments
               | Shares \<Rightarrow> Multisig_getSignatureShares)"

definition round_submit :: "round \<Rightarrow> string \<Rightarrow> action" where
  "round_submit rd = (case rd of Identities \<Rightarrow> SubmitSigningIdentity
                               | Commitments \<Rightarrow> SubmitSigningCommitment
                               | Shares \<Rightarrow> SubmitSignatureShare)"

definition round_label :: "round \<Rightarrow> string" where
  "round_label rd = (case rd of Identities \<Rightarrow> ''Waiting for Identities from server''
                              | Commitments \<Rightarrow> ''Waiting for Signing Commitments from server''
                              | Shares \<Rightarrow> ''Waiting for Signature Shares from server'')"

text \<open>The calls of one pass through a polling loop whose variable holds \<open>cur\<close>.\<close>

definition iteration :: "int \<Rightarrow> string list \<Rightarrow> action list" where
  "iteration numSigners cur =
     [GetSigningStatus,
      ActionStatus (nat_toString (length cur) @ ''/'' @ Number_toString numSigners),
      Sleep 3000]"

subsection \<open>Example status events\<close>

definition commitments_event :: "string list \<Rightarrow> signing_status" where
  "commitments_event cs =
     \<lparr>status_numSigners = 3, status_unsignedTransaction = ''00'', identities = [],
      signingCommitments = cs, signatureShares = []\<rparr>"

definition identities_event :: "string list \<Rightarrow> signing_status" where
  "identities_event ids =
     \<lparr>status_numSigners = 2, status_unsignedTransaction = ''00'', identities = ids,
      signingCommitments = [], signatureShares = []\<rparr>"

definition config_event :: "int \<Rightarrow> string \<Rightarrow> signing_status" where
  "config_event n u =
     \<lparr>status_numSigners = n, status_unsignedTransaction = u, identities = [],
      signingCommitments = [], signatureShares = []\<rparr>"

definition example_relay :: "relay_events \<Rightarrow> relay" where
  "example_relay events =
     \<lparr>client_sessionId = ''session-2'', connectionString = ''tcp://relay'', statusEvents = events\<rparr>"

definition silent_operator :: operator where
  "silent_operator = \<lparr>typedUnsignedTransaction = None, typedNumSigners = None\<rparr>"

definition no_options :: session_options where
  "no_options = \<lparr>opt_numSigners = None, opt_unsignedTransaction = None\<rparr>"

section \<open>RPC routes of the wallet\<close>

subsection \<open>Requests, responses, errors and calls\<close>

record CreateParticipantRequest =
  req_name :: string

record CreateParticipantResponse =
  res_identity :: string

record signer =
  signer_identity :: string

record CreateSignatureShareRequest =
  req_account :: "string option"
  req_signingPackage :: string
  req_unsignedTransaction :: string
  req_signers :: "signer list"

record CreateSignatureShareResponse =
  res_signatureShare :: string

datatype route_error =
    RpcValidationError
  | MissingRpcContext
  | AccountNotFound
  | NotMultisigSigner
  | DuplicateAccountName string
  | NativeError string

text \<open>The calls a route makes on the wallet and on the native cryptographic library.\<close>

datatype call =
    CreateMultisigSecret string
  | GetAccount "string option"
  | NewUnsignedTransaction Buffer
  | TransactionHash
  | PublicKeyRandomness
  | CreateSignatureShare string string string Buffer string "string list"

subsection \<open>The wallet\<close>

record multisig_keys =
  keys_identity :: string
  keys_keyPackage :: string

record account =
  multisigKeys :: "multisig_keys option"

record wallet =
  accounts :: "(string \<times> account) list"
  defaultAccount :: "string option"
  multisigSecrets :: "(string \<times> Buffer) list"

text \<open>Modelled from the spec: \<open>AssertHasRpcContext\<close>, whose code is not part of the files
  modelled here: the route needs a context that holds a wallet.\<close>

definition AssertHasRpcContext :: "'w option \<Rightarrow> route_error + 'w" where
  "AssertHasRpcContext context = (case context of None \<Rightarrow> Inl MissingRpcContext | Some w \<Rightarrow> Inr w)"

text \<open>Modelled from the spec: \<open>getAccount\<close>, whose code is not part of the files modelled
  here. The spec says that the account named by the request (the wallet's default account when
  the request names none) is resolved, and that the resolved account must exist.\<close>

definition getAccount :: "wallet \<Rightarrow> string option \<Rightarrow> route_error + account" where
  "getAccount w name =
     (case (case name of Some n \<Rightarrow> Some n | None \<Rightarrow> defaultAccount w) of
        None \<Rightarrow> Inl AccountNotFound
      | Some n \<Rightarrow> (case map_of (accounts w) n of
                     None \<Rightarrow> Inl AccountNotFound
                   | Some a \<Rightarrow> Inr a))"

text \<open>Modelled from the spec: \<open>AssertMultisigSigner\<close>, whose code is not part of the files
  modelled here. The spec says that the wallet exposes an assertion that an account is
  configured as a multisig signer, and per signer account its identity and key package.\<close>

definition AssertMultisigSigner :: "account \<Rightarrow> route_error + multisig_keys" where
  "AssertMultisigSigner a =
     (case multisigKeys a of None \<Rightarrow> Inl NotMultisigSigner | Some k \<Rightarrow> Inr k)"

text \<open>Modelled from the spec: \<open>wallet.createMultisigSecret\<close>, whose code is not part of the
  files modelled here. The spec says that it generates the secret, returns the resulting public
  identity, and fails with a duplicate-name condition if an identity already exists under that
  name. \<open>generate\<close> stands for the secret generation.\<close>

definition createMultisigSecret ::
  "(string \<Rightarrow> Buffer) \<Rightarrow> string \<Rightarrow> wallet \<Rightarrow> (route_error + Buffer) \<times> wallet" where
  "createMultisigSecret generate name w =
     (case map_of (multisigSecrets w) name of
        Some _ \<Rightarrow> (Inl (DuplicateAccountName name), w)
      | None \<Rightarrow> (Inr (generate name),
                 w\<lparr>multisigSecrets := (name, generate name) # multisigSecrets w\<rparr>))"

subsection \<open>The native library\<close>

text \<open>The functions of the native library the route calls. A left result is an exception
  thrown by the library.\<close>

record 'tx native =
  new_UnsignedTransaction :: "Buffer \<Rightarrow> string + 'tx"
  tx_hash :: "'tx \<Rightarrow> Buffer"
  tx_publicKeyRandomness :: "'tx \<Rightarrow> string"
  native_createSignatureShare ::
    "string \<Rightarrow> string \<Rightarrow> string \<Rightarrow> Buffer \<Rightarrow> string \<Rightarrow> string list \<Rightarrow> string + string"

subsection \<open>wallet/multisig/createParticipant\<close>

text \<open>The handler, over the wallet's \<open>createMultisigSecret\<close>. It returns the wallet, the calls
  made and the response or the error.\<close>

definition createParticipant_handler ::
  "(string \<Rightarrow> 'w \<Rightarrow> (route_error + Buffer) \<times> 'w) \<Rightarrow> 'w option \<Rightarrow> CreateParticipantRequest
     \<Rightarrow> 'w option \<times> call list \<times> (route_error + CreateParticipantResponse)" where
  "createParticipant_handler wallet_createMultisigSecret context request =
     (case AssertHasRpcContext context of
        Inl e \<Rightarrow> (context, [], Inl e)
      | Inr w \<Rightarrow>
          (case wallet_createMultisigSecret (req_name request) w of
             (Inl e, w') \<Rightarrow> (Some w', [CreateMultisigSecret (req_name request)], Inl e)
           | (Inr identity, w') \<Rightarrow>
               (Some w', [CreateMultisigSecret (req_name request)],
                Inr \<lparr>res_identity = Buffer_toString_hex identity\<rparr>)))"

subsection \<open>wallet/multisig/createSignatureShare\<close>

definition createSignatureShare_handler ::
  "'tx native \<Rightarrow> wallet option \<Rightarrow> CreateSignatureShareRequest
     \<Rightarrow> call list \<times> (route_error + CreateSignatureShareResponse)" where
  "createSignatureShare_handler lib node request =
     (case AssertHasRpcContext node of
        Inl e \<Rightarrow> ([], Inl e)
      | Inr w \<Rightarrow>
     (case getAccount w (req_account request) of
        Inl e \<Rightarrow> ([GetAccount (req_account request)], Inl e)
      | Inr account \<Rightarrow>
     (case AssertMultisigSigner account of
        Inl e \<Rightarrow> ([GetAccount (req_account request)], Inl e)
      | Inr keys \<Rightarrow>
     (case new_UnsignedTransaction lib (Buffer_from_hex (req_unsignedTransaction request)) of
        Inl m \<Rightarrow>
          ([GetAccount (req_account request),
            NewUnsignedTransaction (Buffer_from_hex (req_unsignedTransaction request))],
           Inl (NativeError m))
      | Inr unsignedTx \<Rightarrow>
          ([GetAccount (req_account request),
            NewUnsignedTransaction (Buffer_from_hex (req_unsignedTransaction request)),
            TransactionHash, PublicKeyRandomness,
            CreateSignatureShare (keys_identity keys) (keys_keyPackage keys)
              (req_signingPackage request) (tx_hash lib unsignedTx)
              (tx_publicKeyRandomness lib unsignedTx) (map signer_identity (req_signers request))],
           case native_createSignatureShare lib (keys_identity keys) (keys_keyPackage keys)
                  (req_signingPackage request) (tx_hash lib unsignedTx)
                  (tx_publicKeyRandomness lib unsignedTx)
                  (map signer_identity (req_signers request)) of
             Inl m \<Rightarrow> Inl (NativeError m)
           | Inr signatureShare \<Rightarrow> Inr \<lparr>res_signatureShare = signatureShare\<rparr>)))))"

subsection \<open>Request schemas and routing\<close>

text \<open>Request data as it arrives, before validation.\<close>

datatype json =
    JUndefined
  | JNull
  | JBoolean bool
  | JNumber int
  | JString string
  | JArray "json list"
  | JObject "(string \<times> json) list"

definition field :: "string \<Rightarrow> json \<Rightarrow> json" where
  "field k v =
     (case v of
        JObject kvs \<Rightarrow> (case map_of kvs k of None \<Rightarrow> JUndefined | Some x \<Rightarrow> x)
      | _ \<Rightarrow> JUndefined)"

text \<open>Modelled from the spec: the schema combinators of the validation library, read
  strictly as the spec says (\<open>both validate shapes strictly\<close>): \<open>string()\<close> admits a string,
  \<open>object(shape)\<close> an object whose listed fields match, \<open>array(item)\<close> an array whose entries
  match; each of them admits an absent value, which \<open>defined()\<close> excludes.\<close>

definition yup_string :: "json \<Rightarrow> bool" where
  "yup_string v = (case v of JUndefined \<Rightarrow> True | JString _ \<Rightarrow> True | _ \<Rightarrow> False)"

definition yup_object :: "(string \<times> (json \<Rightarrow> bool)) list \<Rightarrow> json \<Rightarrow> bool" where
  "yup_object shape v =
     (case v of
        JUndefined \<Rightarrow> True
      | JObject kvs \<Rightarrow> list_all (\<lambda>(k, schema). schema (field k v)) shape
      | _ \<Rightarrow> False)"

definition yup_array :: "(json \<Rightarrow> bool) \<Rightarrow> json \<Rightarrow> bool" where
  "yup_array item v =
     (case v of JUndefined \<Rightarrow> True | JArray xs \<Rightarrow> list_all item xs | _ \<Rightarrow> False)"

definition yup_defined :: "(json \<Rightarrow> bool) \<Rightarrow> json \<Rightarrow> bool" where
  "yup_defined schema v = (v \<noteq> JUndefined \<and> schema v)"

definition yup_optional :: "(json \<Rightarrow> bool) \<Rightarrow> json \<Rightarrow> bool" where
  "yup_optional schema v = schema v"

definition CreateParticipantRequestSchema :: "json \<Rightarrow> bool" where
  "CreateParticipantRequestSchema =
     yup_defined (yup_object [(''name'', yup_defined yup_string)])"

definition CreateSignatureShareRequestSchema :: "json \<Rightarrow> bool" where
  "CreateSignatureShareRequestSchema =
     yup_defined (yup_object
       [(''account'', yup_optional yup_string),
        (''signingPackage'', yup_defined yup_string),
        (''unsignedTransaction'', yup_defined yup_string),
        (''signers'',
           yup_defined (yup_array
             (yup_defined (yup_object [(''identity'', yup_defined yup_string)]))))])"

text \<open>The typed view of validated request data.\<close>

definition as_string :: "json \<Rightarrow> string" where
  "as_string v = (case v of JString s \<Rightarrow> s | _ \<Rightarrow> [])"

definition as_CreateParticipantRequest :: "json \<Rightarrow> CreateParticipantRequest" where
  "as_CreateParticipantRequest data = \<lparr>req_name = as_string (field ''name'' data)\<rparr>"

definition as_CreateSignatureShareRequest :: "json \<Rightarrow> CreateSignatureShareRequest" where
  "as_CreateSignatureShareRequest data =
     \<lparr>req_account = (case field ''account'' data of JString s \<Rightarrow> Some s | _ \<Rightarrow> None),
      req_signingPackage = as_string (field ''signingPackage'' data),
      req_unsignedTransaction = as_string (field ''unsignedTransaction'' data),
      req_signers = (case field ''signers'' data of
                       JArray xs \<Rightarrow> map (\<lambda>x. \<lparr>signer_identity = as_string (field ''identity'' x)\<rparr>) xs
                     | _ \<Rightarrow> [])\<rparr>"

text \<open>Modelled from the spec: \<open>routes.register\<close> and the router, whose code is not part of
  the files modelled here. The spec says that a route validates the request against its schema
  and rejects a malformed request before any cryptographic or wallet call.\<close>

definition createParticipant_route ::
  "(string \<Rightarrow> 'w \<Rightarrow> (route_error + Buffer) \<times> 'w) \<Rightarrow> 'w option \<Rightarrow> json
     \<Rightarrow> 'w option \<times> call list \<times> (route_error + CreateParticipantResponse)" where
  "createParticipant_route wallet_createMultisigSecret context data =
     (if CreateParticipantRequestSchema data
      then createParticipant_handler wallet_createMultisigSecret context
             (as_CreateParticipantRequest data)
      else (context, [], Inl RpcValidationError))"

definition createSignatureShare_route ::
  "'tx native \<Rightarrow> wallet option \<Rightarrow> json \<Rightarrow> call list \<times> (route_error + CreateSignatureShareResponse)" where
  "createSignatureShare_route lib node data =
     (if CreateSignatureShareRequestSchema data
      then createSignatureShare_handler lib node (as_CreateSignatureShareRequest data)
      else ([], Inl RpcValidationError))"

section \<open>The identity creation command\<close>









subsection \<open>Example wallet and library\<close>

definition example_native :: "Buffer native" where
  "example_native =
     \<lparr>new_UnsignedTransaction = (\<lambda>b. if b = [] then Inl ''empty transaction'' else Inr b),
      tx_hash = (\<lambda>t. take 1 t),
      tx_publicKeyRandomness = (\<lambda>t. Buffer_toString_hex (drop 1 t)),
      native_createSignatureShare =
        (\<lambda>identity keyPackage signingPackage h r signers.
           Inr (identity @ '':'' @ signingPackage @ '':'' @ r @ '':'' @ concat signers))\<rparr>"

definition example_wallet :: wallet where
  "example_wallet =
     \<lparr>accounts =
        [(''alice'', \<lparr>multisigKeys = Some \<lparr>keys_identity = ''72aa'', keys_keyPackage = ''kp''\<rparr>\<rparr>),
         (''bob'', \<lparr>multisigKeys = None\<rparr>)],
      defaultAccount = Some ''alice'',
      multisigSecrets = [(''alice'', [0x72, 0xaa])]\<rparr>"

definition example_share_request :: "string option \<Rightarrow> CreateSignatureShareRequest" where
  "example_share_request who =
     \<lparr>req_account = who, req_signingPackage = ''sp'', req_unsignedTransaction = ''01ff'',
      req_signers = [\<lparr>signer_identity = ''72aa''\<rparr>, \<lparr>signer_identity = ''72bb''\<rparr>]\<rparr>"

section \<open>Block headers\<close>

subsection \<open>BigInt and its decimal text\<close>

definition BigInt_toString :: "int \<Rightarrow> string" where
  "BigInt_toString = Number_toString"

definition digit_value :: "char \<Rightarrow> nat option" where
  "digit_value c =
     (let n = of_char c :: nat in if 48 \<le> n \<and> n \<le> 57 then Some (n - 48) else None)"

fun parse_digits :: "nat \<Rightarrow> string \<Rightarrow> nat option" where
  "parse_digits acc [] = Some acc"
| "parse_digits acc (c # cs) =
     (case digit_value c of None \<Rightarrow> None | Some d \<Rightarrow> parse_digits (10 * acc + d) cs)"

text \<open>\<open>BigInt(s)\<close> for the texts the serde produces and reads: the empty text is zero, a
  decimal numeral with an optional sign its value, and a text that is not a numeral raises a
  \<open>SyntaxError\<close>. (Radix prefixes and surrounding white space, which \<open>toString()\<close> never
  writes, are not read here.)\<close>

definition BigInt_of_string :: "string \<Rightarrow> error + int" where
  "BigInt_of_string s =
     (case s of
        [] \<Rightarrow> Inr 0
      | c # cs \<Rightarrow>
          if c = CHR ''-'' \<or> c = CHR ''+''
          then (case (if cs = [] then None else parse_digits 0 cs) of
                  None \<Rightarrow> Inl (Error ''SyntaxError'')
                | Some n \<Rightarrow> Inr (if c = CHR ''-'' then - int n else int n))
          else (case parse_digits 0 s of
                  None \<Rightarrow> Inl (Error ''SyntaxError'')
                | Some n \<Rightarrow> Inr (int n)))"

subsection \<open>BlockHeader\<close>

text \<open>Numbers are integers and a \<open>Date\<close> is its time value.\<close>

record 'target BlockHeader =
  sequence :: int
  previousBlockHash :: Buffer
  noteCommitment :: Buffer
  transactionCommitment :: Buffer
  target :: 'target
  randomness :: int
  timestamp :: int
  graffiti :: Buffer
  noteSize :: "int option"
  work :: int
  hash :: Buffer

record SerializedBlockHeader =
  s_sequence :: int
  s_previousBlockHash :: string
  s_noteCommitment :: Buffer
  s_transactionCommitment :: Buffer
  s_target :: string
  s_randomness :: string
  s_timestamp :: int
  s_noteSize :: "int option"
  s_work :: "string option"
  s_graffiti :: string

text \<open>The writes of \<open>serialize()\<close> on the \<open>bufio\<close> writer, in order.\<close>

datatype bufio_write =
    writeBigU64BE int
  | writeU32 int
  | writeHash Buffer
  | writeBigU256BE int
  | writeU64 int
  | writeBytes Buffer

text \<open>
  What the header code uses and the modelled files do not define: the hash function, the
  \<open>bufio\<close> writer (a writer of the given size, rendered after the writes; a left result is a
  write that throws), the two hexadecimal serdes, the \<open>Target\<close> class and the clock.
\<close>

record 'target chain =
  blake3 :: "Buffer \<Rightarrow> Buffer"
  bufio_render :: "nat \<Rightarrow> bufio_write list \<Rightarrow> error + Buffer"
  BlockHashSerde_serialize :: "Buffer \<Rightarrow> error + string"
  BlockHashSerde_deserialize :: "string \<Rightarrow> error + Buffer"
  GraffitiSerde_serialize :: "Buffer \<Rightarrow> error + string"
  GraffitiSerde_deserialize :: "string \<Rightarrow> error + Buffer"
  new_Target :: "string \<Rightarrow> error + 'target"
  targetValue :: "'target \<Rightarrow> int"
  asBigInt :: "'target \<Rightarrow> int"
  new_Date :: int

definition BlockHeader_serialize :: "'target chain \<Rightarrow> 'target BlockHeader \<Rightarrow> error + Buffer" where
  "BlockHeader_serialize env this =
     bufio_render env 180
       [writeBigU64BE (randomness this),
        writeU32 (sequence this),
        writeHash (previousBlockHash this),
        writeHash (noteCommitment this),
        writeHash (transactionCommitment this),
        writeBigU256BE (asBigInt env (target this)),
        writeU64 (timestamp this),
        writeBytes (graffiti this)]"

text \<open>The constructor: defaults for the optional arguments, and the hash computed from the
  serialized header when none is given.\<close>

definition new_BlockHeader ::
  "'target chain \<Rightarrow> int \<Rightarrow> Buffer \<Rightarrow> Buffer \<Rightarrow> Buffer \<Rightarrow> 'target \<Rightarrow> int option \<Rightarrow> int option
     \<Rightarrow> Buffer \<Rightarrow> int option \<Rightarrow> int option \<Rightarrow> Buffer option \<Rightarrow> error + 'target BlockHeader" where
  "new_BlockHeader env sequence' previousBlockHash' noteCommitment' transactionCommitment' target'
     randomness' timestamp' graffiti' noteSize' work' hash' =
     (let this =
        \<lparr>sequence = sequence',
         previousBlockHash = previousBlockHash',
         noteCommitment = noteCommitment',
         transactionCommitment = transactionCommitment',
         target = target',
         randomness = (case randomness' of None \<Rightarrow> 0 | Some r \<Rightarrow> r),
         timestamp = (case timestamp' of None \<Rightarrow> new_Date env | Some t \<Rightarrow> t),
         graffiti = graffiti',
         noteSize = noteSize',
         work = (case work' of None \<Rightarrow> 0 | Some w \<Rightarrow> w),
         hash = []\<rparr>
      in case hash' of
           Some h \<Rightarrow> Inr (this\<lparr>hash := h\<rparr>)
         | None \<Rightarrow>
             (case BlockHeader_serialize env this of
                Inl e \<Rightarrow> Inl e
              | Inr header \<Rightarrow> Inr (this\<lparr>hash := blake3 env header\<rparr>)))"

definition BlockHeader_equals ::
  "'target chain \<Rightarrow> 'target BlockHeader \<Rightarrow> 'target BlockHeader \<Rightarrow> error + bool" where
  "BlockHeader_equals env this other =
     (if noteSize this = noteSize other \<and> work this = work other
      then (case BlockHeader_serialize env this of
              Inl e \<Rightarrow> Inl e
            | Inr a \<Rightarrow> (case BlockHeader_serialize env other of
                          Inl e \<Rightarrow> Inl e
                        | Inr b \<Rightarrow> Inr (a = b)))
      else Inr False)"

subsection \<open>BlockHeaderSerde\<close>

definition BlockHeaderSerde_serialize ::
  "'target chain \<Rightarrow> 'target BlockHeader \<Rightarrow> error + SerializedBlockHeader" where
  "BlockHeaderSerde_serialize env header =
     (case BlockHashSerde_serialize env (previousBlockHash header) of
        Inl e \<Rightarrow> Inl e
      | Inr p \<Rightarrow>
     (case GraffitiSerde_serialize env (graffiti header) of
        Inl e \<Rightarrow> Inl e
      | Inr g \<Rightarrow>
          Inr \<lparr>s_sequence = sequence header,
               s_previousBlockHash = p,
               s_noteCommitment = noteCommitment header,
               s_transactionCommitment = transactionCommitment header,
               s_target = BigInt_toString (targetValue env (target header)),
               s_randomness = BigInt_toString (randomness header),
               s_timestamp = timestamp header,
               s_noteSize = noteSize header,
               s_work = Some (BigInt_toString (work header)),
               s_graffiti = g\<rparr>))"

definition BlockHeaderSerde_deserialize ::
  "'target chain \<Rightarrow> SerializedBlockHeader \<Rightarrow> error + 'target BlockHeader" where
  "BlockHeaderSerde_deserialize env data =
     (case BlockHashSerde_deserialize env (s_previousBlockHash data) of
        Inl e \<Rightarrow> Inl e
      | Inr previousBlockHash' \<Rightarrow>
     (case new_Target env (s_target data) of
        Inl e \<Rightarrow> Inl e
      | Inr target' \<Rightarrow>
     (case BigInt_of_string (s_randomness data) of
        Inl e \<Rightarrow> Inl e
      | Inr randomness' \<Rightarrow>
     (case GraffitiSerde_deserialize env (s_graffiti data) of
        Inl e \<Rightarrow> Inl e
      | Inr graffiti' \<Rightarrow>
     (case (case s_work data of
              None \<Rightarrow> Inr 0
            | Some w \<Rightarrow> if w \<noteq> [] then BigInt_of_string w else Inr 0) of
        Inl e \<Rightarrow> Inl e
      | Inr work' \<Rightarrow>
          new_BlockHeader env (s_sequence data) previousBlockHash' (s_noteCommitment data)
            (s_transactionCommitment data) target' (Some randomness') (Some (s_timestamp data))
            graffiti' (s_noteSize data) (Some work') None)))))"

subsection \<open>An example chain\<close>

definition example_chain :: "int chain" where
  "example_chain =
     \<lparr>blake3 = rev,
      bufio_render = (\<lambda>size ws. if length ws = 8 then Inr (concat (map (\<lambda>w. case w of
                         writeHash b \<Rightarrow> b | writeBytes b \<Rightarrow> b
                       | writeBigU64BE i \<Rightarrow> [of_int i] | writeU32 i \<Rightarrow> [of_int i]
                       | writeBigU256BE i \<Rightarrow> [of_int i] | writeU64 i \<Rightarrow> [of_int i]) ws))
                                  else Inl (Error ''out of bounds'')),
      BlockHashSerde_serialize = (\<lambda>b. Inr (Buffer_toString_hex b)),
      BlockHashSerde_deserialize = (\<lambda>s. Inr (Buffer_from_hex s)),
      GraffitiSerde_serialize = (\<lambda>b. Inr (Buffer_toString_hex b)),
      GraffitiSerde_deserialize = (\<lambda>s. Inr (Buffer_from_hex s)),
      new_Target = BigInt_of_string,
      targetValue = (\<lambda>t. t),
      asBigInt = (\<lambda>t. t),
      new_Date = 1700000000000\<rparr>"

definition example_header :: "int BlockHeader" where
  "example_header =
     \<lparr>sequence = 7, previousBlockHash = [0x0a, 0xff], noteCommitment = [1],
      transactionCommitment = [2], target = 883423532389192164791648750371459257913741948437809479060803100646309888,
      randomness = 42, timestamp = 1700000000123, graffiti = [0x69, 0x72], noteSize = Some 12,
      work = 4294967296, hash = [9]\<rparr>"

text \<open>The same chain with a writer that, like \<open>writeHash\<close> of \<open>bufio\<close>, accepts only
  32-byte hashes.\<close>

definition strict_chain :: "int chain" where
  "strict_chain =
     example_chain
       \<lparr>bufio_render :=
          (\<lambda>size ws.
             if list_all (\<lambda>w. case w of writeHash b \<Rightarrow> length b = 32 | _ \<Rightarrow> True) ws
             then bufio_render example_chain size ws
             else Inl (Error ''32-byte hash''))\<rparr>"

text \<open>A header with a one-byte note commitment, as the constructor builds it when it is
  given a hash.\<close>

definition unwritable_header :: "int BlockHeader" where
  "unwritable_header =
     \<lparr>sequence = 7,
      previousBlockHash = [0x0a, 0x0a, 0x0a, 0x0a, 0x0a, 0x0a, 0x0a, 0x0a, 0x0a, 0x0a, 0x0a, 0x0a, 0x0a, 0x0a, 0x0a, 0x0a, 0x0a, 0x0a, 0x0a, 0x0a, 0x0a, 0x0a, 0x0a, 0x0a, 0x0a, 0x0a, 0x0a, 0x0a, 0x0a, 0x0a, 0x0a, 0x0a],
      noteCommitment = [1],
      transactionCommitment = [2],
      target = 1000, randomness = 42, timestamp = 1700000000123,
      graffiti = [0x69, 0x69, 0x69, 0x69, 0x69, 0x69, 0x69, 0x69, 0x69, 0x69, 0x69, 0x69, 0x69, 0x69, 0x69, 0x69, 0x69, 0x69, 0x69, 0x69, 0x69, 0x69, 0x69, 0x69, 0x69, 0x69, 0x69, 0x69, 0x69, 0x69, 0x69, 0x69],
      noteSize = Some 12, work = 4096, hash = [9]\<rparr>"

section \<open>Properties\<close>

subsection \<open>The polling loop in closed form\<close>

lemma relayed_collector_eq:
  "relayed_collector rd c N events =
     collect_relayed (round_submit rd c) (round_label rd) (round_selector rd) c N events"
  by (cases rd)
    (simp_all add: relayed_collector_def round_submit_def round_label_def round_selector_def
      MultisigClient_getIdentities_def MultisigClient_getSigningCommitments_def
      MultisigClient_getSignatureShares_def)

lemma fold_overwrite:
  "fold (\<lambda>message _. sel message) w cur = (if w = [] then cur else sel (last w))"
  by (induction w arbitrary: cur) auto

lemma length_observed: "length (observed sel cur events) = length events"
  by (induction events arbitrary: cur) simp_all

lemma poll_loop_closed:
  "poll_loop sel N cur events =
     (let vs = cur # observed sel cur events;
          pre = takeWhile (\<lambda>v. int (length v) < N) vs
      in if length pre = length vs then None
         else Some (concat (map (iteration N) pre), vs ! length pre))"
proof (induction events arbitrary: cur)
  case Nil
  then show ?case by (simp add: Let_def)
next
  case (Cons w ws)
  show ?case
  proof (cases "int (length cur) < N")
    case True
    then show ?thesis
      using Cons [of "fold (\<lambda>message _. sel message) w cur"]
      by (simp add: Let_def iteration_def)
  next
    case False
    then show ?thesis by (simp add: Let_def)
  qed
qed

lemma collect_relayed_closed:
  "collect_relayed submit label sel c N events =
     (let vs = [c] # observed sel [c] events;
          pre = takeWhile (\<lambda>v. int (length v) < N) vs
      in if length pre = length vs then None
         else Some ([submit, OnSigningStatus, ActionStart label] @ concat (map (iteration N) pre)
                      @ [ClearSigningStatus, ActionStop], vs ! length pre))"
  by (simp add: collect_relayed_def poll_loop_closed Let_def)

lemma takeWhile_first:
  assumes "k < length xs" "\<not> P (xs ! k)" "\<forall>j<k. P (xs ! j)"
  shows "takeWhile P xs = take k xs"
  using assms
proof (induction xs arbitrary: k)
  case Nil
  then show ?case by simp
next
  case (Cons x xs)
  show ?case
  proof (cases k)
    case 0
    with Cons.prems show ?thesis by simp
  next
    case (Suc k')
    have "P x" using Cons.prems(3) Suc by auto
    moreover have "takeWhile P xs = take k' xs"
    proof (rule Cons.IH)
      show "k' < length xs" using Cons.prems(1) Suc by simp
      show "\<not> P (xs ! k')" using Cons.prems(2) Suc by simp
      show "\<forall>j<k'. P (xs ! j)" using Cons.prems(3) Suc by auto
    qed
    ultimately show ?thesis using Suc by simp
  qed
qed

lemma collect_relayed_returns:
  assumes "k < length events"
    and "N \<le> int (length (observed sel [c] events ! k))"
    and "\<forall>j<k. int (length (observed sel [c] events ! j)) < N"
    and "1 < N"
  shows "collect_relayed submit label sel c N events =
           Some ([submit, OnSigningStatus, ActionStart label]
                   @ concat (map (iteration N) ([c] # take k (observed sel [c] events)))
                   @ [ClearSigningStatus, ActionStop],
                 observed sel [c] events ! k)"
proof -
  let ?obs = "observed sel [c] events"
  let ?P = "\<lambda>v. int (length v) < N"
  have k: "k < length ?obs" using assms(1) by (simp add: length_observed)
  have "takeWhile ?P ?obs = take k ?obs"
    using k assms(2,3) by (intro takeWhile_first) auto
  then have "takeWhile ?P ([c] # ?obs) = [c] # take k ?obs"
    using assms(4) by simp
  then show ?thesis
    using k by (simp add: collect_relayed_closed Let_def)
qed

lemma observed_from_events:
  "v \<in> set (observed sel cur events) \<Longrightarrow>
     v = cur \<or> (\<exists>w\<in>set events. w \<noteq> [] \<and> v = sel (last w))"
  by (induction events arbitrary: cur) (auto simp: fold_overwrite split: if_splits)

lemma poll_loop_result:
  assumes "poll_loop sel N cur events = Some (tr, r)"
  shows "N \<le> int (length r) \<and> (r = cur \<or> (\<exists>w\<in>set events. w \<noteq> [] \<and> r = sel (last w)))"
  using assms
proof (induction events arbitrary: cur tr)
  case Nil
  then show ?case by (auto split: if_splits)
next
  case (Cons w ws)
  show ?case
  proof (cases "int (length cur) < N")
    case True
    then obtain tr' where rec: "poll_loop sel N (fold (\<lambda>message _. sel message) w cur) ws = Some (tr', r)"
      using Cons.prems by auto
    from Cons.IH [OF rec] show ?thesis
      by (auto simp: fold_overwrite split: if_splits)
  next
    case False
    then show ?thesis using Cons.prems by auto
  qed
qed

lemma poll_loop_terminates:
  assumes "\<exists>v\<in>set (observed sel cur events). N \<le> int (length v)"
  shows "poll_loop sel N cur events \<noteq> None"
  using assms
proof (induction events arbitrary: cur)
  case Nil
  then show ?case by simp
next
  case (Cons w ws)
  let ?cur' = "fold (\<lambda>message _. sel message) w cur"
  show ?case
  proof (cases "int (length cur) < N")
    case True
    show ?thesis
    proof (cases "N \<le> int (length ?cur')")
      case True
      then have "poll_loop sel N ?cur' ws = Some ([], ?cur')"
        by (cases ws) simp_all
      then show ?thesis using \<open>int (length cur) < N\<close> by simp
    next
      case False
      then have "\<exists>v\<in>set (observed sel ?cur' ws). N \<le> int (length v)"
        using Cons.prems by auto
      from Cons.IH [OF this] show ?thesis using \<open>int (length cur) < N\<close> by simp
    qed
  next
    case False
    then show ?thesis by simp
  qed
qed

lemma observed_nth:
  "j < length events \<Longrightarrow>
     observed sel cur events ! j =
       (if concat (take (Suc j) events) = [] then cur
        else sel (last (concat (take (Suc j) events))))"
proof (induction events arbitrary: cur j)
  case Nil
  then show ?case by simp
next
  case (Cons w ws)
  show ?case
  proof (cases j)
    case 0
    then show ?thesis by (simp add: fold_overwrite)
  next
    case (Suc i)
    then have i: "i < length ws" using Cons.prems by simp
    show ?thesis
      using Cons.IH [OF i, of "fold (\<lambda>message _. sel message) w cur"] Suc
      by (simp add: fold_overwrite)
  qed
qed

lemma collect_relayed_never:
  assumes "\<forall>k<length events. int (length (observed sel [c] events ! k)) < N" and "1 < N"
  shows "collect_relayed submit label sel c N events = None"
proof -
  let ?P = "\<lambda>v. int (length v) < N"
  have "\<forall>v\<in>set (observed sel [c] events). ?P v"
    using assms(1) by (auto simp: in_set_conv_nth length_observed)
  then have "takeWhile ?P ([c] # observed sel [c] events) = [c] # observed sel [c] events"
    using assms(2) by (simp add: takeWhile_eq_all_conv)
  then show ?thesis
    by (simp add: collect_relayed_closed Let_def)
qed

lemma collectStrings_ok:
  assumes "2 \<le> N" "N - 1 \<le> int (length typed)"
  shows "collectStrings nm (N - 1) [c] typed =
           Some (replicate (nat (N - 1)) (Prompt nm), c # take (nat (N - 1)) typed)"
  using assms by (simp add: collectStrings_def)

lemma interactive_collector_ok:
  assumes "2 \<le> N" "N - 1 \<le> int (length typed)"
  shows "\<exists>tr. interactive_collector rd acct c N typed = Some (tr, c # take (nat (N - 1)) typed)"
  using assms
  by (cases rd)
    (simp_all add: interactive_collector_def Multisig_getIdentities_def
      Multisig_getSigningCommitments_def Multisig_getSignatureShares_def collectStrings_def)

subsection \<open>Relayed collectors with a target of at most one\<close>

lemma poll_loop_done:
  "\<not> int (length cur) < n \<Longrightarrow> poll_loop sel n cur events = Some ([], cur)"
  by (cases events) simp_all

text \<open>
  C9. In the relayed transport, when \<open>numSigners \<le> 1\<close> each round collector submits the
  local contribution, subscribes, and returns at once the one-element list holding the local
  contribution: the trace has no status request and no sleep, whatever the relay would send.
\<close>

theorem C9_relayed_target_at_most_one:
  assumes "numSigners \<le> 1"
  shows "MultisigClient_getIdentities c numSigners events =
           Some ([SubmitSigningIdentity c, OnSigningStatus,
                  ActionStart ''Waiting for Identities from server'',
                  ClearSigningStatus, ActionStop], [c])
       \<and> MultisigClient_getSigningCommitments c numSigners events =
           Some ([SubmitSigningCommitment c, OnSigningStatus,
                  ActionStart ''Waiting for Signing Commitments from server'',
                  ClearSigningStatus, ActionStop], [c])
       \<and> MultisigClient_getSignatureShares c numSigners events =
           Some ([SubmitSignatureShare c, OnSigningStatus,
                  ActionStart ''Waiting for Signature Shares from server'',
                  ClearSigningStatus, ActionStop], [c])"
proof -
  have "poll_loop sel numSigners [c] events = Some ([], [c])" for sel
    using assms by (intro poll_loop_done) simp
  then show ?thesis
    by (simp add: MultisigClient_getIdentities_def MultisigClient_getSigningCommitments_def
        MultisigClient_getSignatureShares_def collect_relayed_def)
qed

theorem C9_witness:
  "(1::int) \<le> 1
   \<and> MultisigClient_getIdentities ''id_0'' 1
        [[\<lparr>status_numSigners = 1, status_unsignedTransaction = ''00'', identities = [''id_1'', ''id_0''],
           signingCommitments = [], signatureShares = []\<rparr>]]
      = Some ([SubmitSigningIdentity ''id_0'', OnSigningStatus,
               ActionStart ''Waiting for Identities from server'',
               ClearSigningStatus, ActionStop], [''id_0''])"
  using C9_relayed_target_at_most_one [of 1 "''id_0''"] by simp

subsection \<open>What the round collectors return\<close>

text \<open>
  C1, as stated, fails for the relayed transport: the callback replaces the collector's list by
  the list of the status event, so the result is the relay's list, which may be longer than the
  target and need not start with the local contribution. Here the relay reports three
  identities, the local one second, to a collector with target 2.
\<close>

theorem C1_counterexample:
  "MultisigClient_getIdentities ''id_0'' 2 [[identities_event [''id_1'', ''id_0'', ''id_2'']]]
   = Some ([SubmitSigningIdentity ''id_0'', OnSigningStatus,
            ActionStart ''Waiting for Identities from server'',
            GetSigningStatus, ActionStatus ''1/2'', Sleep 3000,
            ClearSigningStatus, ActionStop],
           [''id_1'', ''id_0'', ''id_2''])
   \<and> length [''id_1'', ''id_0'', ''id_2''] \<noteq> 2
   \<and> [''id_1'', ''id_0'', ''id_2''] ! 0 \<noteq> ''id_0''"
  by (simp add: MultisigClient_getIdentities_def collect_relayed_def identities_event_def
      nat_toString.simps digit_char_def Number_toString_def)

text \<open>
  C1, amended. For every target \<open>N \<ge> 2\<close> and every local contribution \<open>c\<close>:
  each interactive collector, once the operator has typed \<open>N - 1\<close> values, returns a list of
  length exactly \<open>N\<close> with \<open>c\<close> at position 0. The list a relayed collector holds when a
  sleep ends is the one carried by the most recent status event received so far (the local
  list while none has arrived). A relayed collector returns at the first sleep at whose end
  that list has at least \<open>N\<close> entries, after exactly one status request per sleep up to
  then, and what it returns is that list: the list of the most recent status event, in the
  relay's order and possibly longer than \<open>N\<close>. When no sleep ends with at least \<open>N\<close>
  entries it does not return.
\<close>

theorem C1_collectors:
  assumes "2 \<le> N"
  shows "(N - 1 \<le> int (length typed) \<longrightarrow>
            (\<exists>tr r. interactive_collector rd acct c N typed = Some (tr, r)
                     \<and> int (length r) = N \<and> r ! 0 = c))
       \<and> (\<forall>k. k < length events
              \<and> N \<le> int (length (observed (round_selector rd) [c] events ! k))
              \<and> (\<forall>j<k. int (length (observed (round_selector rd) [c] events ! j)) < N) \<longrightarrow>
            concat (take (Suc k) events) \<noteq> []
            \<and> relayed_collector rd c N events =
                Some ([round_submit rd c, OnSigningStatus, ActionStart (round_label rd)]
                        @ concat (map (iteration N)
                            ([c] # take k (observed (round_selector rd) [c] events)))
                        @ [ClearSigningStatus, ActionStop],
                      round_selector rd (last (concat (take (Suc k) events)))))
       \<and> ((\<forall>k<length events. int (length (observed (round_selector rd) [c] events ! k)) < N) \<longrightarrow>
            relayed_collector rd c N events = None)
       \<and> (\<forall>j<length events.
            observed (round_selector rd) [c] events ! j =
              (if concat (take (Suc j) events) = [] then [c]
               else round_selector rd (last (concat (take (Suc j) events)))))
       \<and> (\<forall>tr r. relayed_collector rd c N events = Some (tr, r) \<longrightarrow> N \<le> int (length r))"
proof (intro conjI impI allI)
  assume typed: "N - 1 \<le> int (length typed)"
  obtain tr where "interactive_collector rd acct c N typed = Some (tr, c # take (nat (N - 1)) typed)"
    using interactive_collector_ok [OF assms typed] by blast
  moreover have "int (length (c # take (nat (N - 1)) typed)) = N"
    using assms typed by simp
  ultimately show "\<exists>tr r. interactive_collector rd acct c N typed = Some (tr, r)
                     \<and> int (length r) = N \<and> r ! 0 = c"
    by auto
next
  fix k
  assume h: "k < length events
              \<and> N \<le> int (length (observed (round_selector rd) [c] events ! k))
              \<and> (\<forall>j<k. int (length (observed (round_selector rd) [c] events ! j)) < N)"
  then have k: "k < length events" by simp
  have nth: "observed (round_selector rd) [c] events ! k =
               (if concat (take (Suc k) events) = [] then [c]
                else round_selector rd (last (concat (take (Suc k) events))))"
    using k by (rule observed_nth)
  show ne: "concat (take (Suc k) events) \<noteq> []"
  proof
    assume "concat (take (Suc k) events) = []"
    with nth have "observed (round_selector rd) [c] events ! k = [c]" by simp
    with h assms show False by simp
  qed
  have "1 < N" using assms by simp
  with h have ret: "relayed_collector rd c N events =
           Some ([round_submit rd c, OnSigningStatus, ActionStart (round_label rd)]
                   @ concat (map (iteration N) ([c] # take k (observed (round_selector rd) [c] events)))
                   @ [ClearSigningStatus, ActionStop],
                 observed (round_selector rd) [c] events ! k)"
    unfolding relayed_collector_eq by (intro collect_relayed_returns) simp_all
  have "observed (round_selector rd) [c] events ! k =
                   round_selector rd (last (concat (take (Suc k) events)))"
    using nth ne by (simp only: if_False)
  with ret show "relayed_collector rd c N events =
                Some ([round_submit rd c, OnSigningStatus, ActionStart (round_label rd)]
                        @ concat (map (iteration N)
                            ([c] # take k (observed (round_selector rd) [c] events)))
                        @ [ClearSigningStatus, ActionStop],
                      round_selector rd (last (concat (take (Suc k) events))))"
    by (simp only:)
next
  assume "\<forall>k<length events. int (length (observed (round_selector rd) [c] events ! k)) < N"
  moreover have "1 < N" using assms by simp
  ultimately show "relayed_collector rd c N events = None"
    unfolding relayed_collector_eq by (rule collect_relayed_never)
next
  fix j
  assume "j < length events"
  then show "observed (round_selector rd) [c] events ! j =
              (if concat (take (Suc j) events) = [] then [c]
               else round_selector rd (last (concat (take (Suc j) events))))"
    by (rule observed_nth)
next
  fix tr r
  assume "relayed_collector rd c N events = Some (tr, r)"
  then obtain tr' where "poll_loop (round_selector rd) N [c] events = Some (tr', r)"
    by (auto simp: relayed_collector_eq collect_relayed_def)
  from poll_loop_result [OF this] show "N \<le> int (length r)" by blast
qed

theorem C1_witness:
  "(\<exists>tr r. interactive_collector Identities ''acct'' ''id_0'' 3 [''id_1'', ''id_2''] = Some (tr, r)
             \<and> int (length r) = 3 \<and> r ! 0 = ''id_0'')
   \<and> relayed_collector Commitments ''c_0'' 3
         [[commitments_event [''c_0'']], [commitments_event [''c_1'', ''c_0'', ''c_2'']]]
       = Some ([SubmitSigningCommitment ''c_0'', OnSigningStatus,
                ActionStart ''Waiting for Signing Commitments from server'',
                GetSigningStatus, ActionStatus ''1/3'', Sleep 3000,
                GetSigningStatus, ActionStatus ''1/3'', Sleep 3000,
                ClearSigningStatus, ActionStop],
               [''c_1'', ''c_0'', ''c_2''])
   \<and> relayed_collector Commitments ''c_0'' 3 [[commitments_event [''c_0'']], []] = None"
proof -
  let ?events = "[[commitments_event [''c_0'']], [commitments_event [''c_1'', ''c_0'', ''c_2'']]]"
  let ?quiet = "[[commitments_event [''c_0'']], []]"
  have N: "(2::int) \<le> 3" by simp
  have obs: "observed (round_selector Commitments) [''c_0''] ?events
               = [[''c_0''], [''c_1'', ''c_0'', ''c_2'']]"
    by (simp add: round_selector_def commitments_event_def)
  have obs': "observed (round_selector Commitments) [''c_0''] ?quiet = [[''c_0''], [''c_0'']]"
    by (simp add: round_selector_def commitments_event_def)
  have first: "1 < length ?events
      \<and> 3 \<le> int (length (observed (round_selector Commitments) [''c_0''] ?events ! 1))
      \<and> (\<forall>j<1. int (length (observed (round_selector Commitments) [''c_0''] ?events ! j)) < 3)"
    unfolding obs by simp
  have never: "\<forall>k<length ?quiet.
      int (length (observed (round_selector Commitments) [''c_0''] ?quiet ! k)) < 3"
    unfolding obs' by (simp add: less_Suc_eq)
  have a: "\<exists>tr r. interactive_collector Identities ''acct'' ''id_0'' 3 [''id_1'', ''id_2''] = Some (tr, r)
             \<and> int (length r) = 3 \<and> r ! 0 = ''id_0''"
    using C1_collectors [OF N, where typed = "[''id_1'', ''id_2'']" and rd = Identities
        and acct = "''acct''" and c = "''id_0''", THEN conjunct1]
    by simp
  have b: "relayed_collector Commitments ''c_0'' 3 ?events
       = Some ([SubmitSigningCommitment ''c_0'', OnSigningStatus,
                ActionStart ''Waiting for Signing Commitments from server'',
                GetSigningStatus, ActionStatus ''1/3'', Sleep 3000,
                GetSigningStatus, ActionStatus ''1/3'', Sleep 3000,
                ClearSigningStatus, ActionStop],
               [''c_1'', ''c_0'', ''c_2''])"
    using C1_collectors [OF N, where rd = Commitments and c = "''c_0''" and events = ?events,
        THEN conjunct2, THEN conjunct1, rule_format, OF first, THEN conjunct2]
    unfolding obs
    by (simp add: round_submit_def round_label_def round_selector_def commitments_event_def
        iteration_def nat_toString.simps digit_char_def Number_toString_def)
  have c: "relayed_collector Commitments ''c_0'' 3 ?quiet = None"
    using C1_collectors [OF N, where rd = Commitments and c = "''c_0''" and events = ?quiet,
        THEN conjunct2, THEN conjunct2, THEN conjunct1, THEN mp, OF never] .
  from a b c show ?thesis by (simp only: simp_thms)
qed

subsection \<open>The relayed polling loop\<close>

text \<open>
  C8, as stated, fails when a later status event of the same sleep reports fewer contributions
  than an earlier one: the loop tests only the list left by the last event. Below, the first
  event received reports two commitments for a target of 2 and the second reports one; the
  collector issues a second status request, and with a relay that then stays silent it never
  returns.
\<close>

theorem C8_counterexample:
  "MultisigClient_getSigningCommitments ''c_0'' 2
     [[commitments_event [''c_0'', ''c_1''], commitments_event [''c_0'']],
      [commitments_event [''c_0'', ''c_1'']]]
   = Some ([SubmitSigningCommitment ''c_0'', OnSigningStatus,
            ActionStart ''Waiting for Signing Commitments from server'',
            GetSigningStatus, ActionStatus ''1/2'', Sleep 3000,
            GetSigningStatus, ActionStatus ''1/2'', Sleep 3000,
            ClearSigningStatus, ActionStop],
           [''c_0'', ''c_1''])
   \<and> MultisigClient_getSigningCommitments ''c_0'' 2
         [[commitments_event [''c_0'', ''c_1''], commitments_event [''c_0'']]] = None"
  by (simp add: MultisigClient_getSigningCommitments_def collect_relayed_def commitments_event_def
      nat_toString.simps digit_char_def Number_toString_def)

text \<open>
  C8, amended. In the relayed transport with target \<open>N \<ge> 2\<close>, let the \<open>k\<close>-th sleep be the
  first at whose end the list left by the most recent status event has at least \<open>N\<close> entries.
  Then the collector returns that list, and its calls are: submit, subscribe, start; one status
  request, progress text and 3000 ms sleep for the initial list and for each of the \<open>k\<close> earlier
  sleeps; then clearing the subscription and stopping, with no further status request.
\<close>

theorem C8_polling:
  assumes "k < length events" and "1 < N"
    and "N \<le> int (length (observed (round_selector rd) [c] events ! k))"
    and "\<forall>j<k. int (length (observed (round_selector rd) [c] events ! j)) < N"
  shows "relayed_collector rd c N events =
           Some ([round_submit rd c, OnSigningStatus, ActionStart (round_label rd)]
                   @ concat (map (iteration N) ([c] # take k (observed (round_selector rd) [c] events)))
                   @ [ClearSigningStatus, ActionStop],
                 observed (round_selector rd) [c] events ! k)"
  unfolding relayed_collector_eq
  using assms(1,3,4,2) by (rule collect_relayed_returns)

theorem C8_witness:
  "relayed_collector Commitments ''c_0'' 3
     [[commitments_event [''c_0'']], [commitments_event [''c_0'', ''c_1'', ''c_2'']]]
   = Some ([SubmitSigningCommitment ''c_0'', OnSigningStatus,
            ActionStart ''Waiting for Signing Commitments from server'',
            GetSigningStatus, ActionStatus ''1/3'', Sleep 3000,
            GetSigningStatus, ActionStatus ''1/3'', Sleep 3000,
            ClearSigningStatus, ActionStop],
           [''c_0'', ''c_1'', ''c_2''])"
proof -
  let ?events = "[[commitments_event [''c_0'']], [commitments_event [''c_0'', ''c_1'', ''c_2'']]]"
  have obs: "observed (round_selector Commitments) [''c_0''] ?events
               = [[''c_0''], [''c_0'', ''c_1'', ''c_2'']]"
    by (simp add: round_selector_def commitments_event_def)
  have 1: "(1::nat) < length ?events" by simp
  have 2: "(1::int) < 3" by simp
  have 3: "3 \<le> int (length (observed (round_selector Commitments) [''c_0''] ?events ! 1))"
    unfolding obs by simp
  have 4: "\<forall>j<1. int (length (observed (round_selector Commitments) [''c_0''] ?events ! j)) < 3"
    unfolding obs by simp
  show ?thesis
    using C8_polling [OF 1 2 3 4] unfolding obs
    by (simp add: round_submit_def round_label_def iteration_def nat_toString.simps
        digit_char_def Number_toString_def)
qed

subsection \<open>Session start\<close>

lemma fold_on_config_status:
  "fold on_config_status w v = (if w = [] then v else on_config_status (last w) v)"
  by (induction w arbitrary: v) (auto simp: on_config_status_def)

lemma config_loop_result:
  assumes "config_loop v events = Some (tr, v')" and "var_waiting v"
  shows "set tr \<subseteq> {GetSigningStatus, Sleep 3000}
       \<and> (\<exists>w\<in>set events. w \<noteq> [] \<and> v' = on_config_status (last w) v)"
  using assms
proof (induction events arbitrary: v tr)
  case Nil
  then show ?case by simp
next
  case (Cons w ws)
  from Cons.prems obtain tr' where tr: "tr = GetSigningStatus # Sleep 3000 # tr'"
    and rec: "config_loop (fold on_config_status w v) ws = Some (tr', v')"
    by auto
  show ?case
  proof (cases "w = []")
    case True
    with rec have "config_loop v ws = Some (tr', v')" by simp
    from Cons.IH [OF this Cons.prems(2)] tr show ?thesis by auto
  next
    case False
    then have "fold on_config_status w v = on_config_status (last w) v"
      by (simp add: fold_on_config_status)
    moreover have "\<not> var_waiting (on_config_status (last w) v)"
      by (simp add: on_config_status_def)
    ultimately have "tr' = [] \<and> v' = on_config_status (last w) v"
      using rec by (cases ws) auto
    with False tr show ?thesis by auto
  qed
qed

lemma config_loop_terminates:
  assumes "\<exists>w\<in>set events. w \<noteq> []"
  shows "config_loop v events \<noteq> None"
  using assms
proof (induction events arbitrary: v)
  case Nil
  then show ?case by simp
next
  case (Cons w ws)
  show ?case
  proof (cases "var_waiting v")
    case waiting: True
    show ?thesis
    proof (cases "w = []")
      case True
      then have "\<exists>w\<in>set ws. w \<noteq> []" using Cons.prems by auto
      from Cons.IH [OF this] show ?thesis using waiting by simp
    next
      case False
      then have "\<not> var_waiting (fold on_config_status w v)"
        by (simp add: fold_on_config_status on_config_status_def)
      then have "config_loop (fold on_config_status w v) ws = Some ([], fold on_config_status w v)"
        by (cases ws) simp_all
      then show ?thesis using waiting by simp
    qed
  next
    case False
    then show ?thesis by simp
  qed
qed

lemma getSessionConfig_result:
  assumes "getSessionConfig mk events = Some (tr, r)"
  shows "set tr \<subseteq> {OnSigningStatus, ActionStart ''Waiting for signer config from server'',
                     GetSigningStatus, Sleep 3000, ClearSigningStatus, ActionStop}
       \<and> (\<exists>w\<in>set events. w \<noteq> [] \<and>
             r = (case mk (Buffer_from_hex (status_unsignedTransaction (last w))) of
                    Inl e \<Rightarrow> Inl e
                  | Inr t \<Rightarrow> Inr \<lparr>cfg_numSigners = status_numSigners (last w),
                                  cfg_unsignedTransaction = t\<rparr>))"
proof -
  let ?v0 = "\<lparr>var_numSigners = 0, var_unsignedTransactionHex = [], var_waiting = True\<rparr>"
  from assms obtain tr' v' where loop: "config_loop ?v0 events = Some (tr', v')"
    and tr: "tr = [OnSigningStatus, ActionStart ''Waiting for signer config from server'']
                    @ tr' @ [ClearSigningStatus, ActionStop]"
    and r: "r = (case mk (Buffer_from_hex (var_unsignedTransactionHex v')) of
                   Inl e \<Rightarrow> Inl e
                 | Inr t \<Rightarrow> Inr \<lparr>cfg_numSigners = var_numSigners v', cfg_unsignedTransaction = t\<rparr>)"
    by (auto simp: getSessionConfig_def split: option.splits)
  from config_loop_result [OF loop] obtain w where
    tr': "set tr' \<subseteq> {GetSigningStatus, Sleep 3000}" and w: "w \<in> set events" "w \<noteq> []"
    and v': "v' = on_config_status (last w) ?v0"
    by auto
  have "var_numSigners v' = status_numSigners (last w)"
    and "var_unsignedTransactionHex v' = status_unsignedTransaction (last w)"
    by (simp_all add: v' on_config_status_def)
  with r have "r = (case mk (Buffer_from_hex (status_unsignedTransaction (last w))) of
                    Inl e \<Rightarrow> Inl e
                  | Inr t \<Rightarrow> Inr \<lparr>cfg_numSigners = status_numSigners (last w),
                                  cfg_unsignedTransaction = t\<rparr>)"
    by (simp cong: sum.case_cong)
  with w have "\<exists>w\<in>set events. w \<noteq> [] \<and>
             r = (case mk (Buffer_from_hex (status_unsignedTransaction (last w))) of
                    Inl e \<Rightarrow> Inl e
                  | Inr t \<Rightarrow> Inr \<lparr>cfg_numSigners = status_numSigners (last w),
                                  cfg_unsignedTransaction = t\<rparr>)"
    by blast
  moreover have "set tr \<subseteq> {OnSigningStatus, ActionStart ''Waiting for signer config from server'',
                     GetSigningStatus, Sleep 3000, ClearSigningStatus, ActionStop}"
    using tr tr' by auto
  ultimately show ?thesis by blast
qed

text \<open>
  C2, as stated, fails for the relayed rejoin: with a known session id \<open>startSession\<close> joins
  the session and returns the configuration of the relay without testing \<open>numSigners\<close>. Here the
  relay reports one signer, and the call returns that configuration after a relay join and a
  status poll.
\<close>

theorem C2_counterexample:
  "MultisigClient_startSession Inr (example_relay [[config_event 1 ''0a0b'']])
     silent_operator \<lparr>sessionId = Some ''session-1''\<rparr> no_options
   = Some (\<lparr>sessionId = Some ''session-1''\<rparr>,
           [JoinSession ''session-1'', OnSigningStatus,
            ActionStart ''Waiting for signer config from server'',
            GetSigningStatus, Sleep 3000,
            ClearSigningStatus, ActionStop],
           Inr \<lparr>cfg_numSigners = 1, cfg_unsignedTransaction = Buffer_from_hex ''0a0b''\<rparr>)"
  by (simp add: MultisigClient_startSession_def truthy_def joinSession_def example_relay_def
      config_event_def getSessionConfig_def on_config_status_def del: Buffer_from_hex.simps)

text \<open>
  C2, amended. For every invocation of \<open>startSession\<close> without a known session id, in either
  transport, whose resolved \<open>numSigners\<close> is less than 2, the call fails with the configuration
  error. Before the failure the only interactions are the configuration prompts for the values
  the options did not supply (none when both are supplied): there is no connection, no relay
  call and no round, and the manager's session id is unchanged.
\<close>

theorem C2_config_error:
  assumes "\<not> truthy (sessionId this)"
    and "prompt_or (opt_unsignedTransaction options) ''Enter the unsigned transaction''
           (typedUnsignedTransaction op) = Some (tr1, u)"
    and "prompt_or (opt_numSigners options)
           ''Enter the number of participants in signing this transaction''
           (typedNumSigners op) = Some (tr2, n)"
    and "n < 2"
  shows "MultisigClient_startSession mk rl op this options =
           Some (this, tr1 @ tr2, Inl (Error ''Minimum number of participants must be at least 2''))
       \<and> Multisig_startSession mk op options =
           Some (tr1 @ tr2, Inl (Error ''Minimum number of participants must be at least 2''))
       \<and> tr1 = (if opt_unsignedTransaction options = None
                 then [Prompt ''Enter the unsigned transaction''] else [])
       \<and> tr2 = (if opt_numSigners options = None
                 then [Prompt ''Enter the number of participants in signing this transaction'']
                 else [])"
proof -
  have "inputSigningConfig op options =
          Some (tr1 @ tr2, Inl (Error ''Minimum number of participants must be at least 2''))"
    using assms(2-4) by (simp add: inputSigningConfig_def)
  moreover have "tr1 = (if opt_unsignedTransaction options = None
                 then [Prompt ''Enter the unsigned transaction''] else [])"
    using assms(2) by (auto simp: prompt_or_def split: option.splits)
  moreover have "tr2 = (if opt_numSigners options = None
                 then [Prompt ''Enter the number of participants in signing this transaction'']
                 else [])"
    using assms(3) by (auto simp: prompt_or_def split: option.splits)
  ultimately show ?thesis
    using assms(1) by (simp add: MultisigClient_startSession_def Multisig_startSession_def)
qed

theorem C2_witness:
  "MultisigClient_startSession Inr (example_relay []) silent_operator \<lparr>sessionId = None\<rparr>
     \<lparr>opt_numSigners = Some 1, opt_unsignedTransaction = Some ''0a0b''\<rparr>
   = Some (\<lparr>sessionId = None\<rparr>, [], Inl (Error ''Minimum number of participants must be at least 2''))
   \<and> Multisig_startSession Inr \<lparr>typedUnsignedTransaction = Some ''0a0b'', typedNumSigners = Some 1\<rparr>
       no_options
   = Some ([Prompt ''Enter the unsigned transaction'',
            Prompt ''Enter the number of participants in signing this transaction''],
           (Inl (Error ''Minimum number of participants must be at least 2'')
              :: error + Buffer signing_config))"
proof -
  let ?given = "\<lparr>opt_numSigners = Some 1, opt_unsignedTransaction = Some ''0a0b''\<rparr>"
  let ?typing = "\<lparr>typedUnsignedTransaction = Some ''0a0b'', typedNumSigners = Some 1\<rparr>"
  have s: "\<not> truthy (sessionId \<lparr>sessionId = None\<rparr>)" by (simp add: truthy_def)
  have a1: "prompt_or (opt_unsignedTransaction ?given) ''Enter the unsigned transaction''
           (typedUnsignedTransaction silent_operator) = Some ([], ''0a0b'')"
    by (simp add: prompt_or_def)
  have a2: "prompt_or (opt_numSigners ?given)
           ''Enter the number of participants in signing this transaction''
           (typedNumSigners silent_operator) = Some ([], 1)"
    by (simp add: prompt_or_def)
  have b1: "prompt_or (opt_unsignedTransaction no_options) ''Enter the unsigned transaction''
           (typedUnsignedTransaction ?typing) = Some ([Prompt ''Enter the unsigned transaction''], ''0a0b'')"
    by (simp add: prompt_or_def no_options_def)
  have b2: "prompt_or (opt_numSigners no_options)
           ''Enter the number of participants in signing this transaction''
           (typedNumSigners ?typing)
         = Some ([Prompt ''Enter the number of participants in signing this transaction''], 1)"
    by (simp add: prompt_or_def no_options_def)
  have lt: "(1::int) < 2" by simp
  show ?thesis
    using C2_config_error [OF s a1 a2 lt, of Inr "example_relay []", THEN conjunct1]
      C2_config_error [OF s b1 b2 lt, of "Inr :: Buffer \<Rightarrow> error + Buffer",
        THEN conjunct2, THEN conjunct1]
    by simp
qed

text \<open>
  C3. With a known (non-empty) session id, relayed \<open>startSession\<close> is the relay join followed
  by \<open>getSessionConfig\<close>: it prompts for nothing, starts no session, keeps the session id, and
  returns the configuration carried by a status event of the relay. Its result does not depend
  on the options or the operator, so invoking it again with the same session id against the
  same relay answers returns the identical result; and it returns whenever the relay delivers
  a status event.
\<close>

theorem C3_rejoin:
  assumes "sessionId this = Some sid" and "sid \<noteq> []"
  shows "MultisigClient_startSession mk rl op this options =
           map_option (\<lambda>(tr, r). (this, JoinSession sid # tr, r))
             (getSessionConfig mk (statusEvents rl))
       \<and> (\<forall>this' tr r.
             MultisigClient_startSession mk rl op this options = Some (this', tr, r) \<longrightarrow>
               this' = this
               \<and> (\<forall>n u. StartSigningSession n u \<notin> set tr) \<and> (\<forall>l. Prompt l \<notin> set tr)
               \<and> MultisigClient_startSession mk rl op' this' options' = Some (this', tr, r)
               \<and> (\<exists>w\<in>set (statusEvents rl). w \<noteq> [] \<and>
                     r = (case mk (Buffer_from_hex (status_unsignedTransaction (last w))) of
                            Inl e \<Rightarrow> Inl e
                          | Inr t \<Rightarrow> Inr \<lparr>cfg_numSigners = status_numSigners (last w),
                                          cfg_unsignedTransaction = t\<rparr>)))
       \<and> ((\<exists>w\<in>set (statusEvents rl). w \<noteq> []) \<longrightarrow>
             MultisigClient_startSession mk rl op this options \<noteq> None)"
proof -
  have eq: "MultisigClient_startSession mk rl op'' this options'' =
              map_option (\<lambda>(tr, r). (this, JoinSession sid # tr, r))
                (getSessionConfig mk (statusEvents rl))" for op'' options''
    using assms by (simp add: MultisigClient_startSession_def truthy_def joinSession_def)
  have ret: "this' = this
               \<and> (\<forall>n u. StartSigningSession n u \<notin> set tr) \<and> (\<forall>l. Prompt l \<notin> set tr)
               \<and> MultisigClient_startSession mk rl op' this' options' = Some (this', tr, r)
               \<and> (\<exists>w\<in>set (statusEvents rl). w \<noteq> [] \<and>
                     r = (case mk (Buffer_from_hex (status_unsignedTransaction (last w))) of
                            Inl e \<Rightarrow> Inl e
                          | Inr t \<Rightarrow> Inr \<lparr>cfg_numSigners = status_numSigners (last w),
                                          cfg_unsignedTransaction = t\<rparr>))"
    if "MultisigClient_startSession mk rl op this options = Some (this', tr, r)" for this' tr r
  proof -
    from that obtain tr' where cfg: "getSessionConfig mk (statusEvents rl) = Some (tr', r)"
      and tr: "tr = JoinSession sid # tr'" and this': "this' = this"
      unfolding eq by auto
    have again: "MultisigClient_startSession mk rl op' this' options' = Some (this', tr, r)"
      using cfg tr this' by (simp add: eq)
    have "\<forall>n u. StartSigningSession n u \<notin> set tr" and "\<forall>l. Prompt l \<notin> set tr"
      using getSessionConfig_result [OF cfg] tr by auto
    with getSessionConfig_result [OF cfg] again this' show ?thesis by blast
  qed
  have fin: "MultisigClient_startSession mk rl op this options \<noteq> None"
    if "\<exists>w\<in>set (statusEvents rl). w \<noteq> []"
    using config_loop_terminates [OF that] unfolding eq
    by (auto simp: getSessionConfig_def split: option.splits)
  show ?thesis
  proof (intro conjI allI impI)
    show "MultisigClient_startSession mk rl op this options =
           map_option (\<lambda>(tr, r). (this, JoinSession sid # tr, r))
             (getSessionConfig mk (statusEvents rl))"
      by (rule eq)
  qed (use ret fin in blast)+
qed

theorem C3_witness:
  "MultisigClient_startSession Inr (example_relay [[], [config_event 3 ''0a0b'']])
     silent_operator \<lparr>sessionId = Some ''session-1''\<rparr> no_options
   = Some (\<lparr>sessionId = Some ''session-1''\<rparr>,
           [JoinSession ''session-1'', OnSigningStatus,
            ActionStart ''Waiting for signer config from server'',
            GetSigningStatus, Sleep 3000, GetSigningStatus, Sleep 3000,
            ClearSigningStatus, ActionStop],
           Inr \<lparr>cfg_numSigners = 3, cfg_unsignedTransaction = [10, 11]\<rparr>)"
proof -
  have 1: "sessionId \<lparr>sessionId = Some ''session-1''\<rparr> = Some ''session-1''" by simp
  have 2: "''session-1'' \<noteq> []" by simp
  have hex: "Buffer_from_hex ''0a0b'' = [10, 11]" by (simp add: unhex_def)
  show ?thesis
    using C3_rejoin [OF 1 2, of Inr "example_relay [[], [config_event 3 ''0a0b'']]"
        silent_operator no_options, THEN conjunct1]
    by (simp add: example_relay_def config_event_def getSessionConfig_def on_config_status_def
        unhex_def)
qed

subsection \<open>The createSignatureShare route\<close>

text \<open>
  C4. For a request whose account resolves to a multisig signer and whose unsigned transaction
  the library accepts, the route calls the library's \<open>createSignatureShare\<close> once, with the
  account's identity and key package, the request's signing package, the hash and the
  public-key randomness of the transaction built from the request's bytes, and the request's
  signer identities in order; the response carries the library's result unchanged. The handler
  is a function of its inputs, so identical inputs give the identical share.
\<close>

theorem C4_signature_share:
  assumes "getAccount w (req_account request) = Inr a"
    and "AssertMultisigSigner a = Inr keys"
    and "new_UnsignedTransaction lib (Buffer_from_hex (req_unsignedTransaction request)) = Inr u"
    and "native_createSignatureShare lib (keys_identity keys) (keys_keyPackage keys)
           (req_signingPackage request) (tx_hash lib u) (tx_publicKeyRandomness lib u)
           (map signer_identity (req_signers request)) = Inr share"
  shows "createSignatureShare_handler lib (Some w) request =
           ([GetAccount (req_account request),
             NewUnsignedTransaction (Buffer_from_hex (req_unsignedTransaction request)),
             TransactionHash, PublicKeyRandomness,
             CreateSignatureShare (keys_identity keys) (keys_keyPackage keys)
               (req_signingPackage request) (tx_hash lib u) (tx_publicKeyRandomness lib u)
               (map signer_identity (req_signers request))],
            Inr \<lparr>res_signatureShare = share\<rparr>)"
  using assms by (simp add: createSignatureShare_handler_def AssertHasRpcContext_def)

theorem C4_witness:
  "createSignatureShare_handler example_native (Some example_wallet) (example_share_request None) =
     ([GetAccount None, NewUnsignedTransaction [0x01, 0xff], TransactionHash, PublicKeyRandomness,
       CreateSignatureShare ''72aa'' ''kp'' ''sp'' [0x01] ''ff'' [''72aa'', ''72bb'']],
      Inr \<lparr>res_signatureShare = ''72aa:sp:ff:72aa72bb''\<rparr>)"
proof -
  let ?keys = "\<lparr>keys_identity = ''72aa'', keys_keyPackage = ''kp''\<rparr>"
  have hex: "Buffer_from_hex ''01ff'' = [0x01, 0xff]" by (simp add: unhex_def)
  have 1: "getAccount example_wallet (req_account (example_share_request None))
             = Inr \<lparr>multisigKeys = Some ?keys\<rparr>"
    by (simp add: getAccount_def example_wallet_def example_share_request_def)
  have 2: "AssertMultisigSigner \<lparr>multisigKeys = Some ?keys\<rparr> = Inr ?keys"
    by (simp add: AssertMultisigSigner_def)
  have 3: "new_UnsignedTransaction example_native
             (Buffer_from_hex (req_unsignedTransaction (example_share_request None))) = Inr [0x01, 0xff]"
    by (simp add: example_native_def example_share_request_def unhex_def)
  have 4: "native_createSignatureShare example_native (keys_identity ?keys) (keys_keyPackage ?keys)
           (req_signingPackage (example_share_request None)) (tx_hash example_native [0x01, 0xff])
           (tx_publicKeyRandomness example_native [0x01, 0xff])
           (map signer_identity (req_signers (example_share_request None)))
           = Inr ''72aa:sp:ff:72aa72bb''"
    by (simp add: example_native_def example_share_request_def Buffer_toString_hex_def hex_digit_def)
  show ?thesis
    using C4_signature_share [OF 1 2 3 4]
    by (simp add: example_share_request_def example_native_def unhex_def
        Buffer_toString_hex_def hex_digit_def)
qed

text \<open>
  C5. When the account named by the request (or the default account) does not exist, or
  exists and is not a multisig signer, the route fails with the precondition error after the
  account lookup alone: no call on the native library is made, whatever the library is.
\<close>

theorem C5_precondition:
  "(getAccount w (req_account request) = Inl AccountNotFound \<longrightarrow>
      createSignatureShare_handler lib (Some w) request =
        ([GetAccount (req_account request)], Inl AccountNotFound))
 \<and> (\<forall>a. getAccount w (req_account request) = Inr a \<and> multisigKeys a = None \<longrightarrow>
      createSignatureShare_handler lib (Some w) request =
        ([GetAccount (req_account request)], Inl NotMultisigSigner))"
  by (simp add: createSignatureShare_handler_def AssertHasRpcContext_def AssertMultisigSigner_def)

theorem C5_witness:
  "createSignatureShare_handler example_native (Some example_wallet)
     (example_share_request (Some ''carol'')) = ([GetAccount (Some ''carol'')], Inl AccountNotFound)
 \<and> createSignatureShare_handler example_native (Some example_wallet)
     (example_share_request (Some ''bob'')) = ([GetAccount (Some ''bob'')], Inl NotMultisigSigner)"
proof -
  have 1: "getAccount example_wallet (req_account (example_share_request (Some ''carol'')))
             = Inl AccountNotFound"
    by (simp add: getAccount_def example_wallet_def example_share_request_def)
  have 2: "getAccount example_wallet (req_account (example_share_request (Some ''bob'')))
             = Inr \<lparr>multisigKeys = None\<rparr> \<and> multisigKeys \<lparr>multisigKeys = None\<rparr> = None"
    by (simp add: getAccount_def example_wallet_def example_share_request_def)
  from C5_precondition [of example_wallet "example_share_request (Some ''carol'')" example_native]
  have a: "createSignatureShare_handler example_native (Some example_wallet)
     (example_share_request (Some ''carol''))
       = ([GetAccount (req_account (example_share_request (Some ''carol'')))], Inl AccountNotFound)"
    using 1 by blast
  from C5_precondition [of example_wallet "example_share_request (Some ''bob'')" example_native]
  have b: "createSignatureShare_handler example_native (Some example_wallet)
     (example_share_request (Some ''bob''))
       = ([GetAccount (req_account (example_share_request (Some ''bob'')))], Inl NotMultisigSigner)"
    using 2 by blast
  show ?thesis
    unfolding a b by (simp add: example_share_request_def)
qed

subsection \<open>Request validation\<close>

lemma CreateParticipantRequestSchema_iff:
  "CreateParticipantRequestSchema data \<longleftrightarrow>
     (\<exists>kvs s. data = JObject kvs \<and> field ''name'' data = JString s)"
  by (cases data; cases "field ''name'' data")
    (auto simp: CreateParticipantRequestSchema_def yup_defined_def yup_object_def yup_string_def)

lemma signer_schema_iff:
  "yup_defined (yup_object [(''identity'', yup_defined yup_string)]) x \<longleftrightarrow>
     (\<exists>kvs s. x = JObject kvs \<and> field ''identity'' x = JString s)"
  by (cases x; cases "field ''identity'' x")
    (auto simp: yup_defined_def yup_object_def yup_string_def)

lemma CreateSignatureShareRequestSchema_iff:
  "CreateSignatureShareRequestSchema data \<longleftrightarrow>
     (\<exists>kvs sp ut xs. data = JObject kvs
        \<and> (field ''account'' data = JUndefined \<or> (\<exists>a. field ''account'' data = JString a))
        \<and> field ''signingPackage'' data = JString sp
        \<and> field ''unsignedTransaction'' data = JString ut
        \<and> field ''signers'' data = JArray xs
        \<and> list_all (\<lambda>x. \<exists>kvs s. x = JObject kvs \<and> field ''identity'' x = JString s) xs)"
proof -
  have str: "yup_defined yup_string v \<longleftrightarrow> (\<exists>s. v = JString s)" for v
    by (cases v) (auto simp: yup_defined_def yup_string_def)
  have opt: "yup_optional yup_string v \<longleftrightarrow> (v = JUndefined \<or> (\<exists>s. v = JString s))" for v
    by (cases v) (auto simp: yup_optional_def yup_string_def)
  have arr: "yup_defined (yup_array item) v \<longleftrightarrow> (\<exists>xs. v = JArray xs \<and> list_all item xs)" for item v
    by (cases v) (auto simp: yup_defined_def yup_array_def)
  have sig: "yup_defined (yup_object [(''identity'', yup_defined yup_string)])
               = (\<lambda>x. \<exists>kvs s. x = JObject kvs \<and> field ''identity'' x = JString s)"
    by (rule ext) (rule signer_schema_iff)
  show ?thesis
    unfolding CreateSignatureShareRequestSchema_def sig
    by (cases data) (auto simp: yup_defined_def [of "yup_object _"] yup_object_def str opt arr)
qed

text \<open>
  C7. A request that does not match the schema of its route is rejected with a validation
  error before any wallet or library call; in particular a request without a string
  \<open>name\<close>, without a string \<open>signingPackage\<close> or \<open>unsignedTransaction\<close>, or with a
  \<open>signers\<close> entry whose \<open>identity\<close> is not a string does not match.
\<close>

theorem C7_schema_rejection:
  "(\<not> CreateParticipantRequestSchema data \<longrightarrow>
      createParticipant_route wallet_createMultisigSecret ctx data
        = (ctx, [], Inl RpcValidationError))
 \<and> (\<not> CreateSignatureShareRequestSchema data \<longrightarrow>
      createSignatureShare_route lib node data = ([], Inl RpcValidationError))
 \<and> ((\<forall>s. field ''name'' data \<noteq> JString s) \<longrightarrow> \<not> CreateParticipantRequestSchema data)
 \<and> ((\<forall>s. field ''signingPackage'' data \<noteq> JString s) \<longrightarrow> \<not> CreateSignatureShareRequestSchema data)
 \<and> ((\<forall>s. field ''unsignedTransaction'' data \<noteq> JString s) \<longrightarrow> \<not> CreateSignatureShareRequestSchema data)
 \<and> (\<forall>xs x. field ''signers'' data = JArray xs \<and> x \<in> set xs
             \<and> (\<forall>s. field ''identity'' x \<noteq> JString s)
        \<longrightarrow> \<not> CreateSignatureShareRequestSchema data)"
proof (intro conjI impI allI)
  assume "\<not> CreateParticipantRequestSchema data"
  then show "createParticipant_route wallet_createMultisigSecret ctx data
               = (ctx, [], Inl RpcValidationError)"
    by (simp add: createParticipant_route_def)
next
  assume "\<not> CreateSignatureShareRequestSchema data"
  then show "createSignatureShare_route lib node data = ([], Inl RpcValidationError)"
    by (simp add: createSignatureShare_route_def)
next
  assume "\<forall>s. field ''name'' data \<noteq> JString s"
  then show "\<not> CreateParticipantRequestSchema data"
    by (simp add: CreateParticipantRequestSchema_iff)
next
  assume "\<forall>s. field ''signingPackage'' data \<noteq> JString s"
  then show "\<not> CreateSignatureShareRequestSchema data"
    by (simp add: CreateSignatureShareRequestSchema_iff)
next
  assume "\<forall>s. field ''unsignedTransaction'' data \<noteq> JString s"
  then show "\<not> CreateSignatureShareRequestSchema data"
    by (simp add: CreateSignatureShareRequestSchema_iff)
next
  fix xs x
  assume bad: "field ''signers'' data = JArray xs \<and> x \<in> set xs
                 \<and> (\<forall>s. field ''identity'' x \<noteq> JString s)"
  show "\<not> CreateSignatureShareRequestSchema data"
  proof
    assume "CreateSignatureShareRequestSchema data"
    then obtain ys where "field ''signers'' data = JArray ys"
      and "list_all (\<lambda>x. \<exists>kvs s. x = JObject kvs \<and> field ''identity'' x = JString s) ys"
      unfolding CreateSignatureShareRequestSchema_iff by blast
    with bad show False by (auto simp: list_all_iff)
  qed
qed

theorem C7_witness:
  "createParticipant_route (createMultisigSecret (\<lambda>_. [0x72])) (Some example_wallet) (JObject [])
     = (Some example_wallet, [], Inl RpcValidationError)
 \<and> createSignatureShare_route example_native (Some example_wallet)
       (JObject [(''signingPackage'', JString ''sp''), (''unsignedTransaction'', JString ''01ff''),
                 (''signers'', JArray [JObject [(''note'', JString ''x'')]])])
     = ([], Inl RpcValidationError)"
proof -
  let ?d1 = "JObject []"
  let ?d2 = "JObject [(''signingPackage'', JString ''sp''), (''unsignedTransaction'', JString ''01ff''),
                 (''signers'', JArray [JObject [(''note'', JString ''x'')]])]"
  have n1: "\<not> CreateParticipantRequestSchema ?d1"
  proof -
    have "\<forall>s. field ''name'' ?d1 \<noteq> JString s" by (simp add: field_def)
    with C7_schema_rejection [where data = ?d1] show ?thesis by blast
  qed
  have n2: "\<not> CreateSignatureShareRequestSchema ?d2"
  proof -
    have "field ''signers'' ?d2 = JArray [JObject [(''note'', JString ''x'')]]
            \<and> JObject [(''note'', JString ''x'')] \<in> set [JObject [(''note'', JString ''x'')]]
            \<and> (\<forall>s. field ''identity'' (JObject [(''note'', JString ''x'')]) \<noteq> JString s)"
      by (simp add: field_def)
    with C7_schema_rejection [where data = ?d2] show ?thesis by blast
  qed
  from n1 C7_schema_rejection [where data = ?d1
      and wallet_createMultisigSecret = "createMultisigSecret (\<lambda>_. [0x72])"
      and ctx = "Some example_wallet"]
  have "createParticipant_route (createMultisigSecret (\<lambda>_. [0x72])) (Some example_wallet) ?d1
     = (Some example_wallet, [], Inl RpcValidationError)"
    by blast
  moreover from n2 C7_schema_rejection [where data = ?d2 and lib = example_native
      and node = "Some example_wallet"]
  have "createSignatureShare_route example_native (Some example_wallet) ?d2
          = ([], Inl RpcValidationError)"
    by blast
  ultimately show ?thesis by blast
qed


subsection \<open>Retrying identity creation on a duplicate name\<close>












subsection \<open>The block header serde\<close>

lemma digit_cases:
  "d < 10 \<Longrightarrow> d = 0 \<or> d = 1 \<or> d = 2 \<or> d = 3 \<or> d = 4 \<or> d = 5 \<or> d = 6 \<or> d = 7 \<or> d = 8 \<or> d = (9::nat)"
  by arith

lemma digit_value_digit_char: "d < 10 \<Longrightarrow> digit_value (digit_char d) = Some d"
  by (drule digit_cases) (auto simp: digit_value_def digit_char_def)

lemma digit_char_not_sign: "d < 10 \<Longrightarrow> digit_char d \<noteq> CHR ''-'' \<and> digit_char d \<noteq> CHR ''+''"
  by (drule digit_cases) (auto simp: digit_char_def)

lemma parse_digits_snoc:
  "parse_digits acc (cs @ [c]) =
     (case parse_digits acc cs of
        None \<Rightarrow> None
      | Some a \<Rightarrow> (case digit_value c of None \<Rightarrow> None | Some d \<Rightarrow> Some (10 * a + d)))"
  by (induction cs arbitrary: acc) (auto split: option.splits)

lemma parse_digits_nat_toString: "parse_digits 0 (nat_toString n) = Some n"
proof (induction n rule: nat_toString.induct)
  case (1 n)
  have d: "digit_value (digit_char (n mod 10)) = Some (n mod 10)"
    by (rule digit_value_digit_char) simp
  show ?case
  proof (cases "10 \<le> n")
    case True
    with 1 have "parse_digits 0 (nat_toString (n div 10)) = Some (n div 10)" by simp
    then show ?thesis
      using True d by (subst nat_toString.simps) (simp add: parse_digits_snoc)
  next
    case False
    then show ?thesis
      using d by (subst nat_toString.simps) simp
  qed
qed

lemma nat_toString_head:
  "\<exists>c cs. nat_toString n = c # cs \<and> c \<noteq> CHR ''-'' \<and> c \<noteq> CHR ''+''"
proof (induction n rule: nat_toString.induct)
  case (1 n)
  have s: "digit_char (n mod 10) \<noteq> CHR ''-'' \<and> digit_char (n mod 10) \<noteq> CHR ''+''"
    by (rule digit_char_not_sign) simp
  show ?case
  proof (cases "10 \<le> n")
    case True
    with 1 obtain c cs where "nat_toString (n div 10) = c # cs" "c \<noteq> CHR ''-''" "c \<noteq> CHR ''+''"
      by auto
    then show ?thesis
      using True by (subst nat_toString.simps) simp
  next
    case False
    then show ?thesis
      using s by (subst nat_toString.simps) simp
  qed
qed

lemma BigInt_roundtrip: "BigInt_of_string (BigInt_toString i) = Inr i"
proof (cases "0 \<le> i")
  case True
  obtain c cs where h: "nat_toString (nat i) = c # cs" "c \<noteq> CHR ''-''" "c \<noteq> CHR ''+''"
    using nat_toString_head by blast
  have "parse_digits 0 (c # cs) = Some (nat i)"
    using parse_digits_nat_toString [of "nat i"] h(1) by simp
  then show ?thesis
    using True h by (simp add: BigInt_of_string_def BigInt_toString_def Number_toString_def)
next
  case False
  obtain c cs where h: "nat_toString (nat (- i)) = c # cs"
    using nat_toString_head by blast
  have "parse_digits 0 (c # cs) = Some (nat (- i))"
    using parse_digits_nat_toString [of "nat (- i)"] h(1) by simp
  then show ?thesis
    using False h by (simp add: BigInt_of_string_def BigInt_toString_def Number_toString_def)
qed

lemma BigInt_toString_nonempty: "BigInt_toString i \<noteq> []"
  using nat_toString_head [of "nat i"]
  by (auto simp: BigInt_toString_def Number_toString_def)

lemma serde_roundtrip_written:
  assumes "BlockHashSerde_serialize env (previousBlockHash h) = Inr p"
    and "BlockHashSerde_deserialize env p = Inr (previousBlockHash h)"
    and "GraffitiSerde_serialize env (graffiti h) = Inr g"
    and "GraffitiSerde_deserialize env g = Inr (graffiti h)"
    and "new_Target env (BigInt_toString (targetValue env (target h))) = Inr t"
    and "asBigInt env t = asBigInt env (target h)"
    and "BlockHeader_serialize env h = Inr bytes"
  shows "\<exists>data h'.
           BlockHeaderSerde_serialize env h = Inr data
         \<and> BlockHeaderSerde_deserialize env data = Inr h'
         \<and> h' = h\<lparr>target := t, hash := blake3 env bytes\<rparr>
         \<and> BlockHeader_equals env h' h = Inr True
         \<and> noteSize h' = noteSize h \<and> work h' = work h
         \<and> BlockHeader_serialize env h' = BlockHeader_serialize env h"
proof -
  let ?data = "\<lparr>s_sequence = sequence h,
               s_previousBlockHash = p,
               s_noteCommitment = noteCommitment h,
               s_transactionCommitment = transactionCommitment h,
               s_target = BigInt_toString (targetValue env (target h)),
               s_randomness = BigInt_toString (randomness h),
               s_timestamp = timestamp h,
               s_noteSize = noteSize h,
               s_work = Some (BigInt_toString (work h)),
               s_graffiti = g\<rparr>"
  let ?h' = "h\<lparr>target := t, hash := blake3 env bytes\<rparr>"
  have ser: "BlockHeaderSerde_serialize env h = Inr ?data"
    using assms(1,3) by (simp add: BlockHeaderSerde_serialize_def)
  have same: "BlockHeader_serialize env (h\<lparr>target := t, hash := x\<rparr>) = BlockHeader_serialize env h" for x
    using assms(6) by (simp add: BlockHeader_serialize_def)
  have built: "new_BlockHeader env (sequence h) (previousBlockHash h) (noteCommitment h)
                 (transactionCommitment h) t (Some (randomness h)) (Some (timestamp h))
                 (graffiti h) (noteSize h) (Some (work h)) None = Inr ?h'"
  proof -
    have lit: "\<lparr>sequence = sequence h, previousBlockHash = previousBlockHash h,
           noteCommitment = noteCommitment h, transactionCommitment = transactionCommitment h,
           target = t, randomness = randomness h, timestamp = timestamp h, graffiti = graffiti h,
           noteSize = noteSize h, work = work h, hash = []\<rparr> = h\<lparr>target := t, hash := []\<rparr>"
      by (cases h) simp
    have "BlockHeader_serialize env (h\<lparr>target := t, hash := []\<rparr>) = Inr bytes"
      using assms(7) same [of "[]"] by simp
    then show ?thesis
      unfolding new_BlockHeader_def Let_def option.case lit by simp
  qed
  have de: "BlockHeaderSerde_deserialize env ?data = Inr ?h'"
    using assms(2,4,5) built
    by (simp add: BlockHeaderSerde_deserialize_def BigInt_roundtrip BigInt_toString_nonempty)
  have eq: "BlockHeader_equals env ?h' h = Inr True"
    using assms(7) same by (simp add: BlockHeader_equals_def)
  show ?thesis
    using ser de eq same by simp
qed


lemma serde_roundtrip_unwritten:
  assumes "BlockHashSerde_serialize env (previousBlockHash h) = Inr p"
    and "BlockHashSerde_deserialize env p = Inr (previousBlockHash h)"
    and "GraffitiSerde_serialize env (graffiti h) = Inr g"
    and "GraffitiSerde_deserialize env g = Inr (graffiti h)"
    and "new_Target env (BigInt_toString (targetValue env (target h))) = Inr t"
    and "asBigInt env t = asBigInt env (target h)"
    and "BlockHeader_serialize env h = Inl e"
  shows "\<exists>data. BlockHeaderSerde_serialize env h = Inr data
              \<and> BlockHeaderSerde_deserialize env data = Inl e"
proof -
  let ?data = "\<lparr>s_sequence = sequence h,
               s_previousBlockHash = p,
               s_noteCommitment = noteCommitment h,
               s_transactionCommitment = transactionCommitment h,
               s_target = BigInt_toString (targetValue env (target h)),
               s_randomness = BigInt_toString (randomness h),
               s_timestamp = timestamp h,
               s_noteSize = noteSize h,
               s_work = Some (BigInt_toString (work h)),
               s_graffiti = g\<rparr>"
  have ser: "BlockHeaderSerde_serialize env h = Inr ?data"
    using assms(1,3) by (simp add: BlockHeaderSerde_serialize_def)
  have same: "BlockHeader_serialize env (h\<lparr>target := t, hash := []\<rparr>) = BlockHeader_serialize env h"
    using assms(6) by (simp add: BlockHeader_serialize_def)
  have built: "new_BlockHeader env (sequence h) (previousBlockHash h) (noteCommitment h)
                 (transactionCommitment h) t (Some (randomness h)) (Some (timestamp h))
                 (graffiti h) (noteSize h) (Some (work h)) None = Inl e"
  proof -
    have lit: "\<lparr>sequence = sequence h, previousBlockHash = previousBlockHash h,
           noteCommitment = noteCommitment h, transactionCommitment = transactionCommitment h,
           target = t, randomness = randomness h, timestamp = timestamp h, graffiti = graffiti h,
           noteSize = noteSize h, work = work h, hash = []\<rparr> = h\<lparr>target := t, hash := []\<rparr>"
      by (cases h) simp
    have "BlockHeader_serialize env (h\<lparr>target := t, hash := []\<rparr>) = Inl e"
      using assms(7) same by simp
    then show ?thesis
      unfolding new_BlockHeader_def Let_def option.case lit by simp
  qed
  have "BlockHeaderSerde_deserialize env ?data = Inl e"
    using assms(2,4,5) built
    by (simp add: BlockHeaderSerde_deserialize_def BigInt_roundtrip BigInt_toString_nonempty)
  with ser show ?thesis by blast
qed

text \<open>
  C10, as stated, fails for a header that \<open>serialize()\<close> cannot write. The constructor
  computes no hash when it is given one, so it builds the header below, whose note commitment
  has one byte; the serde serializes it, and deserializing the result throws, because the
  constructor then has to write the header to compute its hash.
\<close>

theorem C10_counterexample:
  "new_BlockHeader strict_chain 7 [0x0a, 0x0a, 0x0a, 0x0a, 0x0a, 0x0a, 0x0a, 0x0a, 0x0a, 0x0a, 0x0a, 0x0a, 0x0a, 0x0a, 0x0a, 0x0a, 0x0a, 0x0a, 0x0a, 0x0a, 0x0a, 0x0a, 0x0a, 0x0a, 0x0a, 0x0a, 0x0a, 0x0a, 0x0a, 0x0a, 0x0a, 0x0a] [1] [2] 1000 (Some 42) (Some 1700000000123)
     [0x69, 0x69, 0x69, 0x69, 0x69, 0x69, 0x69, 0x69, 0x69, 0x69, 0x69, 0x69, 0x69, 0x69, 0x69, 0x69, 0x69, 0x69, 0x69, 0x69, 0x69, 0x69, 0x69, 0x69, 0x69, 0x69, 0x69, 0x69, 0x69, 0x69, 0x69, 0x69] (Some 12) (Some 4096) (Some [9])
     = Inr unwritable_header
 \<and> BlockHeaderSerde_serialize strict_chain unwritable_header =
     Inr \<lparr>s_sequence = 7,
          s_previousBlockHash = ''0a0a0a0a0a0a0a0a0a0a0a0a0a0a0a0a0a0a0a0a0a0a0a0a0a0a0a0a0a0a0a0a'',
          s_noteCommitment = [1],
          s_transactionCommitment = [2],
          s_target = ''1000'', s_randomness = ''42'', s_timestamp = 1700000000123,
          s_noteSize = Some 12, s_work = Some ''4096'',
          s_graffiti = ''6969696969696969696969696969696969696969696969696969696969696969''\<rparr>
 \<and> BlockHeaderSerde_deserialize strict_chain
       \<lparr>s_sequence = 7,
        s_previousBlockHash = ''0a0a0a0a0a0a0a0a0a0a0a0a0a0a0a0a0a0a0a0a0a0a0a0a0a0a0a0a0a0a0a0a'',
        s_noteCommitment = [1],
        s_transactionCommitment = [2],
        s_target = ''1000'', s_randomness = ''42'', s_timestamp = 1700000000123,
        s_noteSize = Some 12, s_work = Some ''4096'',
        s_graffiti = ''6969696969696969696969696969696969696969696969696969696969696969''\<rparr>
     = Inl (Error ''32-byte hash'')"
proof -
  have c: "new_BlockHeader strict_chain 7 [0x0a, 0x0a, 0x0a, 0x0a, 0x0a, 0x0a, 0x0a, 0x0a, 0x0a, 0x0a, 0x0a, 0x0a, 0x0a, 0x0a, 0x0a, 0x0a, 0x0a, 0x0a, 0x0a, 0x0a, 0x0a, 0x0a, 0x0a, 0x0a, 0x0a, 0x0a, 0x0a, 0x0a, 0x0a, 0x0a, 0x0a, 0x0a] [1] [2] 1000 (Some 42) (Some 1700000000123)
     [0x69, 0x69, 0x69, 0x69, 0x69, 0x69, 0x69, 0x69, 0x69, 0x69, 0x69, 0x69, 0x69, 0x69, 0x69, 0x69, 0x69, 0x69, 0x69, 0x69, 0x69, 0x69, 0x69, 0x69, 0x69, 0x69, 0x69, 0x69, 0x69, 0x69, 0x69, 0x69] (Some 12) (Some 4096) (Some [9])
     = Inr unwritable_header"
    by (simp add: new_BlockHeader_def unwritable_header_def)
  have n: "BigInt_toString 1000 = ''1000''" "BigInt_toString 42 = ''42''"
    "BigInt_toString 4096 = ''4096''"
    by (simp_all add: BigInt_toString_def Number_toString_def nat_toString.simps digit_char_def)
  have s: "BlockHeaderSerde_serialize strict_chain unwritable_header =
     Inr \<lparr>s_sequence = 7,
          s_previousBlockHash = ''0a0a0a0a0a0a0a0a0a0a0a0a0a0a0a0a0a0a0a0a0a0a0a0a0a0a0a0a0a0a0a0a'',
          s_noteCommitment = [1],
          s_transactionCommitment = [2],
          s_target = ''1000'', s_randomness = ''42'', s_timestamp = 1700000000123,
          s_noteSize = Some 12, s_work = Some ''4096'',
          s_graffiti = ''6969696969696969696969696969696969696969696969696969696969696969''\<rparr>"
    by (simp add: BlockHeaderSerde_serialize_def strict_chain_def example_chain_def
        unwritable_header_def n Buffer_toString_hex_def hex_digit_def)
  have p: "BigInt_of_string ''1000'' = Inr 1000" "BigInt_of_string ''42'' = Inr 42"
    "BigInt_of_string ''4096'' = Inr 4096"
    using BigInt_roundtrip [of 1000] BigInt_roundtrip [of 42] BigInt_roundtrip [of 4096]
    by (simp_all only: n)
  have d: "BlockHeaderSerde_deserialize strict_chain
       \<lparr>s_sequence = 7,
        s_previousBlockHash = ''0a0a0a0a0a0a0a0a0a0a0a0a0a0a0a0a0a0a0a0a0a0a0a0a0a0a0a0a0a0a0a0a'',
        s_noteCommitment = [1],
        s_transactionCommitment = [2],
        s_target = ''1000'', s_randomness = ''42'', s_timestamp = 1700000000123,
        s_noteSize = Some 12, s_work = Some ''4096'',
        s_graffiti = ''6969696969696969696969696969696969696969696969696969696969696969''\<rparr>
     = Inl (Error ''32-byte hash'')"
    by (simp add: BlockHeaderSerde_deserialize_def strict_chain_def example_chain_def p
        new_BlockHeader_def BlockHeader_serialize_def unhex_def)
  from c s d show ?thesis by (simp only: simp_thms)
qed

text \<open>
  C10, amended. For every block header with integer numbers whose two buffers the hexadecimal
  serdes write and read back and whose target the \<open>Target\<close> constructor reads back from its
  decimal text: if \<open>serialize()\<close> can write the header, deserializing the serialized header
  gives a header equal to it under \<open>equals\<close> (the same \<open>noteSize\<close>, the same \<open>work\<close>, the same
  \<open>serialize()\<close> output), with the hash recomputed; if \<open>serialize()\<close> throws on the header,
  deserializing the serialized header throws the same error, and so does \<open>equals\<close> on the
  header itself. Randomness and work pass through \<open>toString()\<close> and \<open>BigInt\<close>, which are
  inverse on every integer.
\<close>

theorem C10_serde_roundtrip:
  assumes "BlockHashSerde_serialize env (previousBlockHash h) = Inr p"
    and "BlockHashSerde_deserialize env p = Inr (previousBlockHash h)"
    and "GraffitiSerde_serialize env (graffiti h) = Inr g"
    and "GraffitiSerde_deserialize env g = Inr (graffiti h)"
    and "new_Target env (BigInt_toString (targetValue env (target h))) = Inr t"
    and "asBigInt env t = asBigInt env (target h)"
  shows "(\<forall>bytes. BlockHeader_serialize env h = Inr bytes \<longrightarrow>
           (\<exists>data h'.
              BlockHeaderSerde_serialize env h = Inr data
            \<and> BlockHeaderSerde_deserialize env data = Inr h'
            \<and> h' = h\<lparr>target := t, hash := blake3 env bytes\<rparr>
            \<and> BlockHeader_equals env h' h = Inr True
            \<and> noteSize h' = noteSize h \<and> work h' = work h
            \<and> BlockHeader_serialize env h' = BlockHeader_serialize env h))
       \<and> (\<forall>e. BlockHeader_serialize env h = Inl e \<longrightarrow>
           (\<exists>data. BlockHeaderSerde_serialize env h = Inr data
                   \<and> BlockHeaderSerde_deserialize env data = Inl e)
           \<and> BlockHeader_equals env h h = Inl e)"
proof (intro conjI allI impI)
  fix bytes
  assume "BlockHeader_serialize env h = Inr bytes"
  with assms show "\<exists>data h'.
              BlockHeaderSerde_serialize env h = Inr data
            \<and> BlockHeaderSerde_deserialize env data = Inr h'
            \<and> h' = h\<lparr>target := t, hash := blake3 env bytes\<rparr>
            \<and> BlockHeader_equals env h' h = Inr True
            \<and> noteSize h' = noteSize h \<and> work h' = work h
            \<and> BlockHeader_serialize env h' = BlockHeader_serialize env h"
    by (rule serde_roundtrip_written)
next
  fix e
  assume "BlockHeader_serialize env h = Inl e"
  with assms show "\<exists>data. BlockHeaderSerde_serialize env h = Inr data
                   \<and> BlockHeaderSerde_deserialize env data = Inl e"
    by (rule serde_roundtrip_unwritten)
next
  fix e
  assume "BlockHeader_serialize env h = Inl e"
  then show "BlockHeader_equals env h h = Inl e"
    by (simp add: BlockHeader_equals_def)
qed

theorem C10_witness:
  "\<exists>data h'.
     BlockHeaderSerde_serialize example_chain example_header = Inr data
   \<and> BlockHeaderSerde_deserialize example_chain data = Inr h'
   \<and> BlockHeader_equals example_chain h' example_header = Inr True"
proof -
  have 1: "BlockHashSerde_serialize example_chain (previousBlockHash example_header) = Inr ''0aff''"
    by (simp add: example_chain_def example_header_def Buffer_toString_hex_def hex_digit_def)
  have 2: "BlockHashSerde_deserialize example_chain ''0aff'' = Inr (previousBlockHash example_header)"
    by (simp add: example_chain_def example_header_def unhex_def)
  have 3: "GraffitiSerde_serialize example_chain (graffiti example_header) = Inr ''6972''"
    by (simp add: example_chain_def example_header_def Buffer_toString_hex_def hex_digit_def)
  have 4: "GraffitiSerde_deserialize example_chain ''6972'' = Inr (graffiti example_header)"
    by (simp add: example_chain_def example_header_def unhex_def)
  have 5: "new_Target example_chain
             (BigInt_toString (targetValue example_chain (target example_header)))
           = Inr (target example_header)"
    by (simp add: example_chain_def BigInt_roundtrip)
  have 6: "asBigInt example_chain (target example_header)
             = asBigInt example_chain (target example_header)"
    by simp
  have 7: "BlockHeader_serialize example_chain example_header
             = Inr [42, 7, 0x0a, 0xff, 1, 2, 0, of_int 1700000000123, 0x69, 0x72]"
    by (simp add: BlockHeader_serialize_def example_chain_def example_header_def)
  from C10_serde_roundtrip [OF 1 2 3 4 5 6, THEN conjunct1, THEN spec, THEN mp, OF 7]
  show ?thesis by blast
qed

end
